theory Spec2Isabelle
  imports Main "HOL-Library.Sublist"
begin

section \<open>The customer product-list hook (useCustomerProductLists.js)\<close>

text \<open>
  The hook keeps a module-level queue of user actions, reads the customer's product
  lists from a React context and talks to the commerce API. The embedding makes every
  effect of the source explicit:
  \<^item> the module-level \<open>eventQueue\<close>, the context value written by
    \<open>setCustomerProductLists\<close> and the \<open>isLoading\<close> flag are fields of a state record;
  \<^item> the commerce API is a deterministic function of an abstract server state, so a
    theorem holds for every behaviour of the server; \<open>await\<close> is sequential
    composition;
  \<^item> \<open>throw\<close> is the left injection of a sum;
  \<^item> every request (with its response) and every callback invocation is appended to a
    trace, the observable behaviour the properties speak about.

  JavaScript objects are records; \<open>undefined\<close> is \<open>None\<close>, also for a key an
  object does not have. Quantities are JavaScript numbers, modelled below with the
  addition of line 130 as the language computes it. Callbacks are code of
  the caller: invoking one is recorded in the trace and returns normally. A request is
  answered by a response object (error-shaped or not), as the API client's contract says;
  a rejected promise is not modelled. A call runs to its end before anything else
  happens: interleaving with other asynchronous work of the page (a second drain started
  by a re-render while the first one waits for a response) is outside the model. The
  two \<open>console.log\<close> calls are not modelled.
\<close>

subsection \<open>JavaScript numbers\<close>

text \<open>
  A quantity is a JavaScript number, an IEEE 754 double. Quantities are counts, so the
  model has the integer-valued doubles (\<open>Number n\<close>, for an integer \<open>n\<close> that is a
  double; the two zeros are not told apart), the two infinities and \<open>NaN\<close>.
  The sum of two integer-valued doubles is their exact sum rounded to the nearest double,
  ties to the even significand, and an infinity when that is \<open>2 ^ 1024\<close> or more in
  magnitude. Below \<open>2 ^ 53 = 9007199254740992\<close> in magnitude every integer is a
  double and the sum is exact.
\<close>

datatype number = Number int | Infinity | MinusInfinity | NaN

text \<open>
  The number of low bits an integer \<open>m \<ge> 0\<close> loses when it is cut to the 53 bits of
  a significand.
\<close>

function exponent :: "int \<Rightarrow> nat" where
  "exponent m = (if m < 9007199254740992 then 0 else Suc (exponent (m div 2)))"
  by pat_completeness auto
termination
  by (relation "measure nat") auto

declare exponent.simps [simp del]

definition round_to_double :: "int \<Rightarrow> number" where
  "round_to_double x =
     (let m = \<bar>x\<bar>;
          e = exponent m;
          q = m div 2 ^ e;
          r = m mod 2 ^ e;
          q' = (if 2 ^ e < 2 * r \<or> (2 * r = 2 ^ e \<and> odd q) then q + 1 else q);
          y = q' * 2 ^ e
      in if 2 ^ 1024 \<le> y then (if x < 0 then MinusInfinity else Infinity)
         else Number (if x < 0 then - y else y))"

text \<open>The operator \<open>+\<close> on two numbers.\<close>

fun js_add :: "number \<Rightarrow> number \<Rightarrow> number" where
  "js_add (Number a) (Number b) = round_to_double (a + b)"
| "js_add NaN y = NaN"
| "js_add x NaN = NaN"
| "js_add Infinity MinusInfinity = NaN"
| "js_add MinusInfinity Infinity = NaN"
| "js_add Infinity y = Infinity"
| "js_add x Infinity = Infinity"
| "js_add MinusInfinity y = MinusInfinity"
| "js_add x MinusInfinity = MinusInfinity"

subsection \<open>Data\<close>

text \<open>The body of a create-item or update-item request (the object \<open>requestBody\<close>).\<close>

record item_body =
  productId :: string
  priority :: int
  quantity :: number
  public :: bool
  type_item :: string

text \<open>An item of a product list, as the server returns it: a body with an \<open>id\<close>.\<close>

record product_list_item = item_body +
  id_item :: string

text \<open>
  A product list; the record's extension holds every other server-provided field. The
  key \<open>customerProductListItems\<close> may be missing from the object.
\<close>

record product_list =
  id_list :: string
  type_list :: string
  customerProductListItems :: "product_list_item list option"

text \<open>
  The value held by the context (\<open>customerProductLists\<close>): an object whose \<open>data\<close>
  is the array of lists, or has no \<open>data\<close> at all (\<open>{}\<close> after
  \<open>clearProductLists\<close>). A response of the API is such an object or \<open>undefined\<close>.
\<close>

record 'l snapshot =
  data :: "'l product_list_scheme list option"

type_synonym ('l, 's) response = "('l, 's) snapshot_scheme option"

text \<open>
  The requests of the API client, with the parameters the hook passes: the customer id
  first, then list id, item id and body where the endpoint has them. The body of a
  create-list request is an object holding the type of the list; the model keeps the
  type.
\<close>

datatype request =
    Req_getCustomerProductLists string
  | Req_createCustomerProductList string string
  | Req_createCustomerProductListItem string string item_body
  | Req_updateCustomerProductListItem string string string item_body
  | Req_deleteCustomerProductListItem string "string option" string

datatype ('l, 's) error = Error "('l, 's) response" | TypeError

datatype callback = Callback string

datatype ('l, 's) obs =
    Request request "('l, 's) response"
  | OnSuccess callback "number list"
  | OnError callback

text \<open>The \<open>item\<close> of a queued event: a product (for add) or a list item (for remove).\<close>

record event_item =
  id_ev :: string
  quantity_ev :: number

record event =
  action :: string
  item :: event_item
  listId :: "string option"
  onSuccess :: "callback option"
  onError :: "callback option"

definition ADD :: string where
  "ADD = ''add''"

definition REMOVE :: string where
  "REMOVE = ''remove''"

text \<open>
  What one render of the hook closes over: the API client, the \<open>isError\<close> predicate
  and the constant \<open>customerProductListTypes.WISHLIST\<close> (both imported from files that
  are not part of the sources, hence parameters), the customer id and the context value
  \<open>customerProductLists\<close> of that render.
\<close>

record ('srv, 'l, 's) hook =
  api :: "'srv \<Rightarrow> request \<Rightarrow> ('l, 's) response \<times> 'srv"
  isError :: "('l, 's) response \<Rightarrow> bool"
  WISHLIST :: string
  customerId :: string
  customerProductLists :: "('l, 's) response"

record ('srv, 'l, 's) state =
  eventQueue :: "event list"
  store :: "('l, 's) response"
  isLoading :: bool
  server :: 'srv
  trace :: "('l, 's) obs list"

subsection \<open>State setters and the API call\<close>

definition setIsLoading ::
  "bool \<Rightarrow> ('srv, 'l, 's) state \<Rightarrow> ('srv, 'l, 's) state" where
  "setIsLoading b st = st\<lparr>isLoading := b\<rparr>"

definition setCustomerProductLists ::
  "('l, 's) response \<Rightarrow> ('srv, 'l, 's) state \<Rightarrow> ('srv, 'l, 's) state" where
  "setCustomerProductLists v st = st\<lparr>store := v\<rparr>"

definition call_api ::
  "('srv, 'l, 's) hook \<Rightarrow> request \<Rightarrow> ('srv, 'l, 's) state
    \<Rightarrow> ('l, 's) response \<times> ('srv, 'l, 's) state" where
  "call_api h req st =
     (let (response, srv) = api h (server st) req
      in (response, st\<lparr>server := srv, trace := trace st @ [Request req response]\<rparr>))"

definition invoke ::
  "('l, 's) obs \<Rightarrow> ('srv, 'l, 's) state \<Rightarrow> ('srv, 'l, 's) state" where
  "invoke ob st = st\<lparr>trace := trace st @ [ob]\<rparr>"

subsection \<open>The methods of the hook\<close>

text \<open>
  Each method takes the hook of the render it belongs to and the state, and returns its
  result (or the error it throws) with the new state. \<open>getProductsInList\<close>,
  \<open>clearProductLists\<close> and the getter \<open>showLoader\<close> take no part in the properties
  below and are left out.
\<close>

definition getProductListPerType ::
  "('srv, 'l, 's) hook \<Rightarrow> string \<Rightarrow> ('l, 's) error + 'l product_list_scheme option" where
  "getProductListPerType h type =
     (case customerProductLists h of
        None \<Rightarrow> Inr None
      | Some cpl \<Rightarrow>
          (case data cpl of
             None \<Rightarrow> Inl TypeError
           | Some ds \<Rightarrow> Inr (find (\<lambda>list. type_list list = type) ds)))"

definition getCustomerProductLists ::
  "('srv, 'l, 's) hook \<Rightarrow> ('srv, 'l, 's) state
    \<Rightarrow> (('l, 's) error + ('l, 's) response) \<times> ('srv, 'l, 's) state" where
  "getCustomerProductLists h st =
     (let st1 = setIsLoading True st;
          (response, st2) = call_api h (Req_getCustomerProductLists (customerId h)) st1;
          st3 = setIsLoading False st2
      in if isError h response then (Inl (Error response), st3)
         else (Inr response, setCustomerProductLists response st3))"

definition createCustomerProductListItem ::
  "('srv, 'l, 's) hook \<Rightarrow> item_body \<Rightarrow> string \<Rightarrow> ('srv, 'l, 's) state
    \<Rightarrow> (('l, 's) error + ('l, 's) response) \<times> ('srv, 'l, 's) state" where
  "createCustomerProductListItem h body lid st =
     (let st1 = setIsLoading True st;
          (response, st2) =
             call_api h (Req_createCustomerProductListItem (customerId h) lid body) st1;
          st3 = setIsLoading False st2
      in if isError h response then (Inl (Error response), st3)
         else (case getCustomerProductLists h st3 of
                 (Inl e, st4) \<Rightarrow> (Inl e, st4)
               | (Inr _, st4) \<Rightarrow> (Inr response, st4)))"

definition updateCustomerProductListItem ::
  "('srv, 'l, 's) hook \<Rightarrow> item_body \<Rightarrow> string \<Rightarrow> string \<Rightarrow> ('srv, 'l, 's) state
    \<Rightarrow> (('l, 's) error + ('l, 's) response) \<times> ('srv, 'l, 's) state" where
  "updateCustomerProductListItem h body lid iid st =
     (let st1 = setIsLoading True st;
          (response, st2) =
             call_api h (Req_updateCustomerProductListItem (customerId h) lid iid body) st1;
          st3 = setIsLoading False st2
      in if isError h response then (Inl (Error response), st3)
         else (case getCustomerProductLists h st3 of
                 (Inl e, st4) \<Rightarrow> (Inl e, st4)
               | (Inr _, st4) \<Rightarrow> (Inr response, st4)))"

definition createCustomerProductList ::
  "('srv, 'l, 's) hook \<Rightarrow> string \<Rightarrow> ('srv, 'l, 's) state
    \<Rightarrow> (('l, 's) error + ('l, 's) response) \<times> ('srv, 'l, 's) state" where
  "createCustomerProductList h requestBody st =
     (let st1 = setIsLoading True st;
          (response, st2) =
             call_api h (Req_createCustomerProductList (customerId h) requestBody) st1;
          st3 = setIsLoading True st2
      in if isError h response then (Inl (Error response), st3)
         else (case getCustomerProductLists h st3 of
                 (Inl e, st4) \<Rightarrow> (Inl e, st4)
               | (Inr _, st4) \<Rightarrow> (Inr response, st4)))"

definition addItemToWishlist ::
  "('srv, 'l, 's) hook \<Rightarrow> string \<Rightarrow> number \<Rightarrow> string \<Rightarrow> ('srv, 'l, 's) state
    \<Rightarrow> (('l, 's) error + ('l, 's) response) \<times> ('srv, 'l, 's) state" where
  "addItemToWishlist h pid qty wishlistId st =
     (let requestBody =
            \<lparr>productId = pid, priority = 1, quantity = qty, public = False,
             type_item = ''product''\<rparr>
      in createCustomerProductListItem h requestBody wishlistId st)"

definition updateItemToWishlist ::
  "('srv, 'l, 's) hook \<Rightarrow> string \<Rightarrow> product_list_item \<Rightarrow> number \<Rightarrow> string
    \<Rightarrow> ('srv, 'l, 's) state
    \<Rightarrow> (('l, 's) error + ('l, 's) response) \<times> ('srv, 'l, 's) state" where
  "updateItemToWishlist h pid productListItem qty wishlistId st =
     (let requestBody =
            \<lparr>productId = pid, priority = 1,
             quantity = js_add (quantity productListItem) qty,
             public = False, type_item = ''product''\<rparr>
      in updateCustomerProductListItem h requestBody wishlistId (id_item productListItem) st)"

definition fetchOrCreateProductLists ::
  "('srv, 'l, 's) hook \<Rightarrow> string \<Rightarrow> ('srv, 'l, 's) state
    \<Rightarrow> (('l, 's) error + unit) \<times> ('srv, 'l, 's) state" where
  "fetchOrCreateProductLists h type st =
     (let st1 = setIsLoading True st;
          (response, st2) = call_api h (Req_getCustomerProductLists (customerId h)) st1;
          st3 = setIsLoading False st2
      in if isError h response then (Inl (Error response), st3)
         else if (case response of
                    None \<Rightarrow> False
                  | Some r \<Rightarrow>
                      (case data r of
                         None \<Rightarrow> False
                       | Some ds \<Rightarrow> ds \<noteq> [] \<and> list_ex (\<lambda>list. type_list list = type) ds))
         then (Inr (), setCustomerProductLists response st3)
         else
           (let st4 = setIsLoading True st3;
                (newProductList, st5) =
                   call_api h (Req_createCustomerProductList (customerId h) type) st4;
                st6 = setIsLoading False st5
            in if isError h newProductList then (Inl (Error newProductList), st6)
               else (case getCustomerProductLists h st6 of
                       (Inl e, st7) \<Rightarrow> (Inl e, st7)
                     | (Inr _, st7) \<Rightarrow> (Inr (), st7))))"

text \<open>
  \<open>Array.prototype.map\<close> with a callback that can throw: the first throw ends the
  call and no array is returned.
\<close>

primrec map_throwing :: "('a \<Rightarrow> 'e + 'b) \<Rightarrow> 'a list \<Rightarrow> 'e + 'b list" where
  "map_throwing f [] = Inr []"
| "map_throwing f (x # xs) =
     (case f x of
        Inl e \<Rightarrow> Inl e
      | Inr y \<Rightarrow> (case map_throwing f xs of Inl e \<Rightarrow> Inl e | Inr ys \<Rightarrow> Inr (y # ys)))"

text \<open>
  The callback of lines 360 to 370: a list with the given id gets its item collection
  filtered, which throws when the list has no such key; any other list is returned as
  it is.
\<close>

definition remove_from_list ::
  "event_item \<Rightarrow> string option \<Rightarrow> 'l product_list_scheme
    \<Rightarrow> ('l, 's) error + 'l product_list_scheme" where
  "remove_from_list it lid list =
     (if Some (id_list list) = lid then
        (case customerProductListItems list of
           None \<Rightarrow> Inl TypeError
         | Some items \<Rightarrow>
             Inr (list\<lparr>customerProductListItems :=
                   Some (filter (\<lambda>x. id_item x \<noteq> id_ev it) items)\<rparr>))
      else Inr list)"

definition deleteCustomerProductListItem ::
  "('srv, 'l, 's) hook \<Rightarrow> event_item \<Rightarrow> string option \<Rightarrow> ('srv, 'l, 's) state
    \<Rightarrow> (('l, 's) error + unit) \<times> ('srv, 'l, 's) state" where
  "deleteCustomerProductListItem h it lid st =
     (let (response, st1) =
             call_api h (Req_deleteCustomerProductListItem (customerId h) lid (id_ev it)) st
      in if isError h response then (Inl (Error response), st1)
         else (case customerProductLists h of
                 None \<Rightarrow> (Inl TypeError, st1)
               | Some cpl \<Rightarrow>
                   (case data cpl of
                      None \<Rightarrow> (Inl TypeError, st1)
                    | Some ds \<Rightarrow>
                        (case map_throwing (remove_from_list it lid) ds of
                           Inl e \<Rightarrow> (Inl e, st1)
                         | Inr updated \<Rightarrow>
                             (let updatedProductLists = cpl\<lparr>data := Some updated\<rparr>
                              in (Inr (),
                                  setCustomerProductLists (Some updatedProductLists) st1))))))"

subsection \<open>Draining the event queue\<close>

text \<open>
  One iteration of the loop of \<open>processEventQueue\<close> either falls out of the
  \<open>switch\<close> (and the loop goes on) or executes a \<open>return\<close>, which ends the whole
  function.
\<close>

datatype control = Break | Return

definition optional_call ::
  "callback option \<Rightarrow> (callback \<Rightarrow> ('l, 's) obs) \<Rightarrow> ('srv, 'l, 's) state \<Rightarrow> ('srv, 'l, 's) state" where
  "optional_call f ob st = (case f of None \<Rightarrow> st | Some cb \<Rightarrow> invoke (ob cb) st)"

definition try_ADD ::
  "('srv, 'l, 's) hook \<Rightarrow> event \<Rightarrow> ('srv, 'l, 's) state
    \<Rightarrow> (('l, 's) error + control) \<times> ('srv, 'l, 's) state" where
  "try_ADD h event st =
     (case getProductListPerType h (WISHLIST h) of
        Inl e \<Rightarrow> (Inl e, st)
      | Inr None \<Rightarrow> (Inl TypeError, st)
      | Inr (Some wishlist) \<Rightarrow>
          (case customerProductListItems wishlist of
             None \<Rightarrow> (Inl TypeError, st)
           | Some items \<Rightarrow>
               (case find (\<lambda>i. productId i = id_ev (item event)) items of
                  Some productListItem \<Rightarrow>
                    (case updateItemToWishlist h (id_ev (item event)) productListItem
                            (quantity_ev (item event)) (id_list wishlist) st of
                       (Inl e, st1) \<Rightarrow> (Inl e, st1)
                     | (Inr _, st1) \<Rightarrow>
                         (case onSuccess event of
                            None \<Rightarrow> (Inl TypeError, st1)
                          | Some cb \<Rightarrow>
                              (Inr Return,
                               invoke (OnSuccess cb [quantity_ev (item event)]) st1)))
                | None \<Rightarrow>
                    (case addItemToWishlist h (id_ev (item event)) (quantity_ev (item event))
                            (id_list wishlist) st of
                       (Inl e, st1) \<Rightarrow> (Inl e, st1)
                     | (Inr _, st1) \<Rightarrow>
                         (Inr Return,
                          optional_call (onSuccess event)
                            (\<lambda>cb. OnSuccess cb [quantity_ev (item event)]) st1)))))"

definition try_REMOVE ::
  "('srv, 'l, 's) hook \<Rightarrow> event \<Rightarrow> ('srv, 'l, 's) state
    \<Rightarrow> (('l, 's) error + control) \<times> ('srv, 'l, 's) state" where
  "try_REMOVE h event st =
     (case deleteCustomerProductListItem h (item event) (listId event) st of
        (Inl e, st1) \<Rightarrow> (Inl e, st1)
      | (Inr _, st1) \<Rightarrow>
          (Inr Break, optional_call (onSuccess event) (\<lambda>cb. OnSuccess cb []) st1))"

definition processEvent ::
  "('srv, 'l, 's) hook \<Rightarrow> event \<Rightarrow> ('srv, 'l, 's) state
    \<Rightarrow> control \<times> ('srv, 'l, 's) state" where
  "processEvent h event st =
     (if action event = ADD then
        (case try_ADD h event st of
           (Inl error, st1) \<Rightarrow> (Break, optional_call (onError event) OnError st1)
         | (Inr c, st1) \<Rightarrow> (c, st1))
      else if action event = REMOVE then
        (case try_REMOVE h event st of
           (Inl error, st1) \<Rightarrow> (Break, optional_call (onError event) OnError st1)
         | (Inr c, st1) \<Rightarrow> (c, st1))
      else (Break, st))"

text \<open>
  The loop of \<open>processEventQueue\<close>. It reads the queue anew in every iteration, as
  the source does. No method touches the queue, so every iteration shortens it by the
  one event it shifted, and the loop terminates.
\<close>

function processEventQueue ::
  "('srv, 'l, 's) hook \<Rightarrow> ('srv, 'l, 's) state \<Rightarrow> ('srv, 'l, 's) state" where
  "processEventQueue h st =
     (case eventQueue st of
        [] \<Rightarrow> st
      | event # rest \<Rightarrow>
          (case processEvent h event (st\<lparr>eventQueue := rest\<rparr>) of
             (Return, st1) \<Rightarrow> st1
           | (Break, st1) \<Rightarrow> processEventQueue h st1))"
  by pat_completeness auto
termination
proof (relation "measure (\<lambda>(h, st). length (eventQueue st))")
  show "wf (measure (\<lambda>(h, st). length (eventQueue st)))"
    by simp
next
  fix h :: "('srv, 'l, 's) hook" and st :: "('srv, 'l, 's) state"
    and event rest x st1
  assume q: "eventQueue st = event # rest"
    and p: "(x, st1) = processEvent h event (st\<lparr>eventQueue := rest\<rparr>)"
  have call: "eventQueue s' = eventQueue s" if "call_api h req s = (r, s')" for req r s s'
    using that by (auto simp: call_api_def split: prod.splits)
  have get: "eventQueue s' = eventQueue s" if "getCustomerProductLists h s = (r, s')" for r s s'
    using that
    by (auto simp: getCustomerProductLists_def setIsLoading_def setCustomerProductLists_def
        Let_def split: prod.splits if_splits dest!: call)
  have crt: "eventQueue s' = eventQueue s"
    if "createCustomerProductListItem h b l s = (r, s')" for b l r s s'
    using that
    by (auto simp: createCustomerProductListItem_def setIsLoading_def Let_def
        split: prod.splits if_splits sum.splits dest!: call get)
  have upd: "eventQueue s' = eventQueue s"
    if "updateCustomerProductListItem h b l i s = (r, s')" for b l i r s s'
    using that
    by (auto simp: updateCustomerProductListItem_def setIsLoading_def Let_def
        split: prod.splits if_splits sum.splits dest!: call get)
  have del: "eventQueue s' = eventQueue s"
    if "deleteCustomerProductListItem h i l s = (r, s')" for i l r s s'
    using that
    by (auto simp: deleteCustomerProductListItem_def setCustomerProductLists_def Let_def
        split: prod.splits if_splits sum.splits option.splits dest!: call)
  have opt: "eventQueue (optional_call f ob s) = eventQueue s" for f ob and s :: "('srv, 'l, 's) state"
    by (simp add: optional_call_def invoke_def split: option.splits)
  have add: "eventQueue s' = eventQueue s" if "try_ADD h event s = (r, s')" for r s s'
    using that
    by (auto simp: try_ADD_def addItemToWishlist_def updateItemToWishlist_def invoke_def opt
        split: prod.splits sum.splits option.splits dest!: crt upd)
  have rem: "eventQueue s' = eventQueue s" if "try_REMOVE h event s = (r, s')" for r s s'
    using that
    by (auto simp: try_REMOVE_def opt split: prod.splits sum.splits dest!: del)
  from p [symmetric] have "eventQueue st1 = rest"
    by (auto simp: processEvent_def opt split: prod.splits sum.splits if_splits
        dest!: add rem)
  with q show "((h, st1), (h, st)) \<in> measure (\<lambda>(h, st). length (eventQueue st))"
    by simp
qed

declare processEventQueue.simps [simp del]

text \<open>
  The iterations of the loop on the events \<open>events\<close> at the head of the queue: the
  state in which the loop is done with them, or nothing when one of them executed a
  \<open>return\<close>. It is used to say that the loop gets to an event further down the
  queue.
\<close>

fun drain_past ::
  "('srv, 'l, 's) hook \<Rightarrow> event list \<Rightarrow> ('srv, 'l, 's) state
    \<Rightarrow> ('srv, 'l, 's) state option" where
  "drain_past h [] st = Some st"
| "drain_past h (event # events) st =
     (case processEvent h event (st\<lparr>eventQueue := tl (eventQueue st)\<rparr>) of
        (Return, st1) \<Rightarrow> None
      | (Break, st1) \<Rightarrow> drain_past h events st1)"

subsection \<open>The queue's producer and the drain trigger\<close>

definition addActionToEventQueue ::
  "event \<Rightarrow> ('srv, 'l, 's) state \<Rightarrow> ('srv, 'l, 's) state" where
  "addActionToEventQueue event st = st\<lparr>eventQueue := eventQueue st @ [event]\<rparr>"

definition loaded :: "('srv, 'l, 's) hook \<Rightarrow> bool" where
  "loaded h =
     (case customerProductLists h of
        None \<Rightarrow> False
      | Some cpl \<Rightarrow> (case data cpl of None \<Rightarrow> False | Some ds \<Rightarrow> ds \<noteq> []))"

text \<open>
  The effect of lines 71 to 75. Its condition is
  \<open>eventQueue.length && customerProductLists?.data.length\<close>: the second operand is
  evaluated only when the queue is not empty, is \<open>undefined\<close> when the context value
  is, and throws when the context value has no \<open>data\<close>. The result says whether
  \<open>processEventQueue\<close> was called.
\<close>

definition useEffect ::
  "('srv, 'l, 's) hook \<Rightarrow> ('srv, 'l, 's) state
    \<Rightarrow> (('l, 's) error + bool) \<times> ('srv, 'l, 's) state" where
  "useEffect h st =
     (if eventQueue st = [] then (Inr False, st)
      else (case customerProductLists h of
              None \<Rightarrow> (Inr False, st)
            | Some cpl \<Rightarrow>
                (case data cpl of
                   None \<Rightarrow> (Inl TypeError, st)
                 | Some ds \<Rightarrow>
                     if ds \<noteq> [] then (Inr True, processEventQueue h st)
                     else (Inr False, st))))"

subsection \<open>Reading a context value\<close>

text \<open>
  Two projections used to state properties: the lists of a context value (none when the
  value or its \<open>data\<close> is undefined) and its fields other than \<open>data\<close>.
\<close>

definition lists_of :: "('l, 's) response \<Rightarrow> 'l product_list_scheme list" where
  "lists_of r =
     (case r of None \<Rightarrow> [] | Some cpl \<Rightarrow> (case data cpl of None \<Rightarrow> [] | Some ds \<Rightarrow> ds))"

definition fields_of :: "('l, 's) response \<Rightarrow> 's option" where
  "fields_of r = map_option snapshot.more r"

text \<open>The observations a call added to the trace.\<close>

definition new_obs :: "('srv, 'l, 's) state \<Rightarrow> ('srv, 'l, 's) state \<Rightarrow> ('l, 's) obs list" where
  "new_obs st st' = drop (length (trace st)) (trace st')"

section \<open>Concrete inputs\<close>

text \<open>
  A customer with a wishlist \<open>l1\<close> holding the products \<open>p1\<close> (quantity 3) and
  \<open>p2\<close>, and a second list \<open>l2\<close>. An error-shaped response carries a flag in the
  fields beside \<open>data\<close>; \<open>ex_isError\<close> reads it. \<open>ex_api_ok\<close> answers every
  request with the snapshot, \<open>ex_api_fail\<close> with the error-shaped object.
\<close>

definition ex_item :: product_list_item where
  "ex_item = \<lparr>productId = ''p1'', priority = 1, quantity = Number 3, public = False,
     type_item = ''product'', id_item = ''i1''\<rparr>"

definition ex_other_item :: product_list_item where
  "ex_other_item = \<lparr>productId = ''p2'', priority = 1, quantity = Number 1, public = False,
     type_item = ''product'', id_item = ''i2''\<rparr>"

definition ex_wishlist :: product_list where
  "ex_wishlist = \<lparr>id_list = ''l1'', type_list = ''wish_list'',
     customerProductListItems = Some [ex_item, ex_other_item]\<rparr>"

definition ex_other_list :: product_list where
  "ex_other_list = \<lparr>id_list = ''l2'', type_list = ''gift_registry'',
     customerProductListItems = Some [ex_item]\<rparr>"

definition ex_snapshot :: "(unit, bool) snapshot_scheme" where
  "ex_snapshot = \<lparr>data = Some [ex_wishlist, ex_other_list], \<dots> = False\<rparr>"

definition ex_fault :: "(unit, bool) snapshot_scheme" where
  "ex_fault = \<lparr>data = None, \<dots> = True\<rparr>"

definition ex_isError :: "(unit, bool) response \<Rightarrow> bool" where
  "ex_isError r = (case r of None \<Rightarrow> False | Some s \<Rightarrow> snapshot.more s)"

definition ex_api_ok :: "unit \<Rightarrow> request \<Rightarrow> (unit, bool) response \<times> unit" where
  "ex_api_ok srv req = (Some ex_snapshot, srv)"

definition ex_api_fail :: "unit \<Rightarrow> request \<Rightarrow> (unit, bool) response \<times> unit" where
  "ex_api_fail srv req = (Some ex_fault, srv)"

definition ex_hook :: "(unit, unit, bool) hook" where
  "ex_hook = \<lparr>api = ex_api_ok, isError = ex_isError, WISHLIST = ''wish_list'',
     customerId = ''c1'', customerProductLists = Some ex_snapshot\<rparr>"

definition ex_state :: "event list \<Rightarrow> (unit, unit, bool) state" where
  "ex_state q = \<lparr>eventQueue = q, store = Some ex_snapshot, isLoading = False,
     server = (), trace = []\<rparr>"

definition ex_remove :: event where
  "ex_remove = \<lparr>action = ''remove'', item = \<lparr>id_ev = ''i1'', quantity_ev = Number 0\<rparr>,
     listId = Some ''l1'', onSuccess = Some (Callback ''removed''),
     onError = Some (Callback ''remove failed'')\<rparr>"

text \<open>
  The same hook on a server that answers every request with the error-shaped object; a
  request body; and queued events: an add of \<open>p1\<close> (in the wishlist), an add of
  \<open>p3\<close> (not in it), and the first of them without a success callback.
\<close>

definition ex_failing_hook :: "(unit, unit, bool) hook" where
  "ex_failing_hook = ex_hook\<lparr>api := ex_api_fail\<rparr>"

definition ex_body :: item_body where
  "ex_body = \<lparr>productId = ''p3'', priority = 1, quantity = Number 2, public = False,
     type_item = ''product''\<rparr>"

definition ex_add_p1 :: event where
  "ex_add_p1 = \<lparr>action = ''add'', item = \<lparr>id_ev = ''p1'', quantity_ev = Number 2\<rparr>,
     listId = None, onSuccess = Some (Callback ''added''),
     onError = Some (Callback ''add failed'')\<rparr>"

definition ex_add_p3 :: event where
  "ex_add_p3 = \<lparr>action = ''add'', item = \<lparr>id_ev = ''p3'', quantity_ev = Number 2\<rparr>,
     listId = None, onSuccess = Some (Callback ''added''),
     onError = Some (Callback ''add failed'')\<rparr>"

definition ex_add_p1_silent :: event where
  "ex_add_p1_silent = ex_add_p1\<lparr>onSuccess := None\<rparr>"

text \<open>
  A remove of the item \<open>i2\<close> of the wishlist; a customer whose wishlist holds
  \<open>p1\<close> at the quantity \<open>2 ^ 53\<close>, and an add of one more \<open>p1\<close>.
\<close>

definition ex_remove_i2 :: event where
  "ex_remove_i2 = \<lparr>action = ''remove'', item = \<lparr>id_ev = ''i2'', quantity_ev = Number 1\<rparr>,
     listId = Some ''l1'', onSuccess = Some (Callback ''removed''),
     onError = Some (Callback ''remove failed'')\<rparr>"

definition ex_large_snapshot :: "(unit, bool) snapshot_scheme" where
  "ex_large_snapshot =
     \<lparr>data = Some [\<lparr>id_list = ''l1'', type_list = ''wish_list'',
        customerProductListItems =
          Some [\<lparr>productId = ''p1'', priority = 1, quantity = Number 9007199254740992,
                 public = False, type_item = ''product'', id_item = ''i1''\<rparr>]\<rparr>],
      \<dots> = False\<rparr>"

definition ex_large_hook :: "(unit, unit, bool) hook" where
  "ex_large_hook = ex_hook\<lparr>customerProductLists := Some ex_large_snapshot\<rparr>"

definition ex_add_one_p1 :: event where
  "ex_add_one_p1 = \<lparr>action = ''add'', item = \<lparr>id_ev = ''p1'', quantity_ev = Number 1\<rparr>,
     listId = None, onSuccess = Some (Callback ''added''),
     onError = Some (Callback ''add failed'')\<rparr>"

text \<open>
  The scenario of a page that queues two actions before the lists have arrived: the
  context value is still undefined when the add of \<open>p3\<close> and the remove are queued;
  then the lists arrive.
\<close>

definition ex_unloaded :: "(unit, unit, bool) state" where
  "ex_unloaded = \<lparr>eventQueue = [], store = None, isLoading = False, server = (), trace = []\<rparr>"

definition ex_queued_then_loaded :: "(unit, unit, bool) state" where
  "ex_queued_then_loaded =
     setCustomerProductLists (Some ex_snapshot)
       (addActionToEventQueue ex_remove (addActionToEventQueue ex_add_p3 ex_unloaded))"

lemmas ex_defs = ex_item_def ex_other_item_def ex_wishlist_def ex_other_list_def ex_snapshot_def
  ex_fault_def ex_isError_def ex_api_ok_def ex_api_fail_def ex_hook_def ex_state_def ex_remove_def
  ex_remove_i2_def

lemmas drain_defs = processEvent_def try_ADD_def try_REMOVE_def
     optional_call_def invoke_def getProductListPerType_def updateItemToWishlist_def addItemToWishlist_def
     updateCustomerProductListItem_def createCustomerProductListItem_def getCustomerProductLists_def
     deleteCustomerProductListItem_def call_api_def setIsLoading_def setCustomerProductLists_def
     ADD_def REMOVE_def

section \<open>Properties of the model\<close>

subsection \<open>Adding numbers\<close>

lemma exponent_small: "m < 9007199254740992 \<Longrightarrow> exponent m = 0"
  by (subst exponent.simps) simp

lemma exponent_step: "9007199254740992 \<le> m \<Longrightarrow> exponent m = Suc (exponent (m div 2))"
  by (subst exponent.simps) simp

text \<open>Below \<open>2 ^ 53\<close> in magnitude the sum of two integers is exact.\<close>

lemma round_to_double_exact: "\<bar>x\<bar> < 9007199254740992 \<Longrightarrow> round_to_double x = Number x"
  by (simp add: round_to_double_def exponent_small Let_def)

lemma js_add_exact:
  "\<bar>a + b\<bar> < 9007199254740992 \<Longrightarrow> js_add (Number a) (Number b) = Number (a + b)"
  by (simp add: round_to_double_exact)

text \<open>At \<open>2 ^ 53\<close> it is not: \<open>2 ^ 53 + 1\<close> is no double, and the tie goes to the even one.\<close>

lemma round_to_double_rounds: "round_to_double 9007199254740993 = Number 9007199254740992"
  by (simp add: round_to_double_def exponent_step exponent_small Let_def)

lemma js_add_rounds: "js_add (Number 9007199254740992) (Number 1) = Number 9007199254740992"
  by (simp add: round_to_double_rounds)

subsection \<open>The loop, unfolded once\<close>

lemma ADD_neq_REMOVE: "ADD \<noteq> REMOVE"
  by (simp add: ADD_def REMOVE_def)

lemma processEventQueue_Nil: "eventQueue st = [] \<Longrightarrow> processEventQueue h st = st"
  by (subst processEventQueue.simps) simp

lemma processEventQueue_Cons:
  "eventQueue st = ev # rest \<Longrightarrow>
   processEventQueue h st =
     (case processEvent h ev (st\<lparr>eventQueue := rest\<rparr>) of
        (Return, st1) \<Rightarrow> st1
      | (Break, st1) \<Rightarrow> processEventQueue h st1)"
  by (subst processEventQueue.simps) simp

subsection \<open>What each method returns, by the responses of the API\<close>

text \<open>
  Each lemma names the responses of the requests a method can issue and gives the
  method's result and final state in closed form. Naming a response is no restriction:
  the API answers every request.
\<close>

lemma getCustomerProductLists_result:
  assumes "api h (server st) (Req_getCustomerProductLists (customerId h)) = (r, srv)"
  shows "getCustomerProductLists h st =
     (if isError h r then Inl (Error r) else Inr r,
      st\<lparr>isLoading := False, server := srv,
         trace := trace st @ [Request (Req_getCustomerProductLists (customerId h)) r],
         store := if isError h r then store st else r\<rparr>)"
  using assms
  by (simp add: getCustomerProductLists_def call_api_def setIsLoading_def
      setCustomerProductLists_def)

lemma createCustomerProductListItem_result:
  assumes "api h (server st) (Req_createCustomerProductListItem (customerId h) lid body) = (r1, srv1)"
    and "api h srv1 (Req_getCustomerProductLists (customerId h)) = (r2, srv2)"
  shows "createCustomerProductListItem h body lid st =
     (if isError h r1 then
        (Inl (Error r1),
         st\<lparr>isLoading := False, server := srv1,
            trace := trace st @
              [Request (Req_createCustomerProductListItem (customerId h) lid body) r1]\<rparr>)
      else
        (if isError h r2 then Inl (Error r2) else Inr r1,
         st\<lparr>isLoading := False, server := srv2,
            trace := trace st @
              [Request (Req_createCustomerProductListItem (customerId h) lid body) r1,
               Request (Req_getCustomerProductLists (customerId h)) r2],
            store := if isError h r2 then store st else r2\<rparr>))"
  using assms
  by (simp add: createCustomerProductListItem_def getCustomerProductLists_def call_api_def
      setIsLoading_def setCustomerProductLists_def)

lemma updateCustomerProductListItem_result:
  assumes "api h (server st) (Req_updateCustomerProductListItem (customerId h) lid iid body)
             = (r1, srv1)"
    and "api h srv1 (Req_getCustomerProductLists (customerId h)) = (r2, srv2)"
  shows "updateCustomerProductListItem h body lid iid st =
     (if isError h r1 then
        (Inl (Error r1),
         st\<lparr>isLoading := False, server := srv1,
            trace := trace st @
              [Request (Req_updateCustomerProductListItem (customerId h) lid iid body) r1]\<rparr>)
      else
        (if isError h r2 then Inl (Error r2) else Inr r1,
         st\<lparr>isLoading := False, server := srv2,
            trace := trace st @
              [Request (Req_updateCustomerProductListItem (customerId h) lid iid body) r1,
               Request (Req_getCustomerProductLists (customerId h)) r2],
            store := if isError h r2 then store st else r2\<rparr>))"
  using assms
  by (simp add: updateCustomerProductListItem_def getCustomerProductLists_def call_api_def
      setIsLoading_def setCustomerProductLists_def)

lemma createCustomerProductList_result:
  assumes "api h (server st) (Req_createCustomerProductList (customerId h) requestBody) = (r1, srv1)"
    and "api h srv1 (Req_getCustomerProductLists (customerId h)) = (r2, srv2)"
  shows "createCustomerProductList h requestBody st =
     (if isError h r1 then
        (Inl (Error r1),
         st\<lparr>isLoading := True, server := srv1,
            trace := trace st @
              [Request (Req_createCustomerProductList (customerId h) requestBody) r1]\<rparr>)
      else
        (if isError h r2 then Inl (Error r2) else Inr r1,
         st\<lparr>isLoading := False, server := srv2,
            trace := trace st @
              [Request (Req_createCustomerProductList (customerId h) requestBody) r1,
               Request (Req_getCustomerProductLists (customerId h)) r2],
            store := if isError h r2 then store st else r2\<rparr>))"
  using assms
  by (simp add: createCustomerProductList_def getCustomerProductLists_def call_api_def
      setIsLoading_def setCustomerProductLists_def)

lemma deleteCustomerProductListItem_result:
  assumes "api h (server st) (Req_deleteCustomerProductListItem (customerId h) lid (id_ev it))
             = (r1, srv1)"
  shows "deleteCustomerProductListItem h it lid st =
     (let st1 = st\<lparr>server := srv1,
            trace := trace st @
              [Request (Req_deleteCustomerProductListItem (customerId h) lid (id_ev it)) r1]\<rparr>
      in if isError h r1 then (Inl (Error r1), st1)
         else (case customerProductLists h of
                 None \<Rightarrow> (Inl TypeError, st1)
               | Some cpl \<Rightarrow>
                   (case data cpl of
                      None \<Rightarrow> (Inl TypeError, st1)
                    | Some ds \<Rightarrow>
                        (case map_throwing (remove_from_list it lid) ds of
                           Inl e \<Rightarrow> (Inl e, st1)
                         | Inr updated \<Rightarrow>
                             (Inr (), st1\<lparr>store := Some (cpl\<lparr>data := Some updated\<rparr>)\<rparr>)))))"
  using assms
  by (simp add: deleteCustomerProductListItem_def call_api_def setCustomerProductLists_def
      Let_def split: option.splits sum.splits)

text \<open>
  The map over the lists succeeds exactly when every list with the given id has an item
  collection.
\<close>

lemma map_throwing_remove_from_list:
  assumes "\<forall>l \<in> set ds. Some (id_list l) = lid \<longrightarrow> customerProductListItems l \<noteq> None"
  shows "map_throwing (remove_from_list it lid) ds =
     Inr (map (\<lambda>l. if Some (id_list l) = lid
                   then l\<lparr>customerProductListItems :=
                          map_option (filter (\<lambda>x. id_item x \<noteq> id_ev it))
                            (customerProductListItems l)\<rparr>
                   else l) ds)"
  using assms by (induction ds) (auto simp: remove_from_list_def)

lemma map_throwing_remove_from_list_throws:
  assumes "\<not> (\<forall>l \<in> set ds. Some (id_list l) = lid \<longrightarrow> customerProductListItems l \<noteq> None)"
  shows "map_throwing (remove_from_list it lid) ds = Inl TypeError"
  using assms
proof (induction ds)
  case Nil
  then show ?case by simp
next
  case (Cons a ds)
  show ?case
  proof (cases "Some (id_list a) = lid \<and> customerProductListItems a = None")
    case True
    then show ?thesis
      by (simp add: remove_from_list_def)
  next
    case False
    with Cons.prems
    have n: "\<not> (\<forall>l \<in> set ds. Some (id_list l) = lid \<longrightarrow> customerProductListItems l \<noteq> None)"
      by auto
    from Cons.IH [OF n] show ?thesis
      by (auto simp: remove_from_list_def split: sum.splits option.splits)
  qed
qed

lemma fetchOrCreateProductLists_result:
  assumes "api h (server st) (Req_getCustomerProductLists (customerId h)) = (r1, srv1)"
    and "api h srv1 (Req_createCustomerProductList (customerId h) type) = (r2, srv2)"
    and "api h srv2 (Req_getCustomerProductLists (customerId h)) = (r3, srv3)"
  shows "fetchOrCreateProductLists h type st =
     (if isError h r1 then
        (Inl (Error r1),
         st\<lparr>isLoading := False, server := srv1,
            trace := trace st @ [Request (Req_getCustomerProductLists (customerId h)) r1]\<rparr>)
      else if \<exists>list \<in> set (lists_of r1). type_list list = type then
        (Inr (),
         st\<lparr>isLoading := False, server := srv1,
            trace := trace st @ [Request (Req_getCustomerProductLists (customerId h)) r1],
            store := r1\<rparr>)
      else if isError h r2 then
        (Inl (Error r2),
         st\<lparr>isLoading := False, server := srv2,
            trace := trace st @
              [Request (Req_getCustomerProductLists (customerId h)) r1,
               Request (Req_createCustomerProductList (customerId h) type) r2]\<rparr>)
      else
        (if isError h r3 then Inl (Error r3) else Inr (),
         st\<lparr>isLoading := False, server := srv3,
            trace := trace st @
              [Request (Req_getCustomerProductLists (customerId h)) r1,
               Request (Req_createCustomerProductList (customerId h) type) r2,
               Request (Req_getCustomerProductLists (customerId h)) r3],
            store := if isError h r3 then store st else r3\<rparr>))"
proof -
  have m: "(case r1 of None \<Rightarrow> False
            | Some r \<Rightarrow> (case data r of None \<Rightarrow> False
                | Some ds \<Rightarrow> ds \<noteq> [] \<and> list_ex (\<lambda>list. type_list list = type) ds))
         = (\<exists>list \<in> set (lists_of r1). type_list list = type)"
    by (auto simp: lists_of_def list_ex_iff split: option.splits)
  show ?thesis
    using assms
    by (simp add: fetchOrCreateProductLists_def m getCustomerProductLists_def call_api_def
        setIsLoading_def setCustomerProductLists_def Let_def)
qed

subsection \<open>An error-shaped response is the last thing a method sees\<close>

lemma getCustomerProductLists_raises:
  assumes "isError h r"
    and "Request req r \<in> set (new_obs st (snd (getCustomerProductLists h st)))"
  shows "fst (getCustomerProductLists h st) = Inl (Error r)
       \<and> last (trace (snd (getCustomerProductLists h st))) = Request req r"
proof -
  obtain r1 srv1 where a: "api h (server st) (Req_getCustomerProductLists (customerId h)) = (r1, srv1)"
    by (cases "api h (server st) (Req_getCustomerProductLists (customerId h))")
  show ?thesis
    using assms by (auto simp: getCustomerProductLists_result [OF a] new_obs_def)
qed

lemma createCustomerProductList_raises:
  assumes "isError h r"
    and "Request req r \<in> set (new_obs st (snd (createCustomerProductList h requestBody st)))"
  shows "fst (createCustomerProductList h requestBody st) = Inl (Error r)
       \<and> last (trace (snd (createCustomerProductList h requestBody st))) = Request req r"
proof -
  obtain r1 srv1 where a:
    "api h (server st) (Req_createCustomerProductList (customerId h) requestBody) = (r1, srv1)"
    by (cases "api h (server st) (Req_createCustomerProductList (customerId h) requestBody)")
  obtain r2 srv2 where b: "api h srv1 (Req_getCustomerProductLists (customerId h)) = (r2, srv2)"
    by (cases "api h srv1 (Req_getCustomerProductLists (customerId h))")
  show ?thesis
    using assms
    by (auto simp: createCustomerProductList_result [OF a b] new_obs_def split: if_splits)
qed

lemma createCustomerProductListItem_raises:
  assumes "isError h r"
    and "Request req r \<in> set (new_obs st (snd (createCustomerProductListItem h body lid st)))"
  shows "fst (createCustomerProductListItem h body lid st) = Inl (Error r)
       \<and> last (trace (snd (createCustomerProductListItem h body lid st))) = Request req r"
proof -
  obtain r1 srv1 where a:
    "api h (server st) (Req_createCustomerProductListItem (customerId h) lid body) = (r1, srv1)"
    by (cases "api h (server st) (Req_createCustomerProductListItem (customerId h) lid body)")
  obtain r2 srv2 where b: "api h srv1 (Req_getCustomerProductLists (customerId h)) = (r2, srv2)"
    by (cases "api h srv1 (Req_getCustomerProductLists (customerId h))")
  show ?thesis
    using assms
    by (auto simp: createCustomerProductListItem_result [OF a b] new_obs_def split: if_splits)
qed

lemma updateCustomerProductListItem_raises:
  assumes "isError h r"
    and "Request req r \<in> set (new_obs st (snd (updateCustomerProductListItem h body lid iid st)))"
  shows "fst (updateCustomerProductListItem h body lid iid st) = Inl (Error r)
       \<and> last (trace (snd (updateCustomerProductListItem h body lid iid st))) = Request req r"
proof -
  obtain r1 srv1 where a:
    "api h (server st) (Req_updateCustomerProductListItem (customerId h) lid iid body) = (r1, srv1)"
    by (cases "api h (server st) (Req_updateCustomerProductListItem (customerId h) lid iid body)")
  obtain r2 srv2 where b: "api h srv1 (Req_getCustomerProductLists (customerId h)) = (r2, srv2)"
    by (cases "api h srv1 (Req_getCustomerProductLists (customerId h))")
  show ?thesis
    using assms
    by (auto simp: updateCustomerProductListItem_result [OF a b] new_obs_def split: if_splits)
qed

lemma fetchOrCreateProductLists_raises:
  assumes "isError h r"
    and "Request req r \<in> set (new_obs st (snd (fetchOrCreateProductLists h type st)))"
  shows "fst (fetchOrCreateProductLists h type st) = Inl (Error r)
       \<and> last (trace (snd (fetchOrCreateProductLists h type st))) = Request req r"
proof -
  obtain r1 srv1 where a: "api h (server st) (Req_getCustomerProductLists (customerId h)) = (r1, srv1)"
    by (cases "api h (server st) (Req_getCustomerProductLists (customerId h))")
  obtain r2 srv2 where b:
    "api h srv1 (Req_createCustomerProductList (customerId h) type) = (r2, srv2)"
    by (cases "api h srv1 (Req_createCustomerProductList (customerId h) type)")
  obtain r3 srv3 where c: "api h srv2 (Req_getCustomerProductLists (customerId h)) = (r3, srv3)"
    by (cases "api h srv2 (Req_getCustomerProductLists (customerId h))")
  show ?thesis
    using assms
    by (auto simp: fetchOrCreateProductLists_result [OF a b c] new_obs_def split: if_splits)
qed

lemma deleteCustomerProductListItem_raises:
  assumes "isError h r"
    and "Request req r \<in> set (new_obs st (snd (deleteCustomerProductListItem h it lid st)))"
  shows "fst (deleteCustomerProductListItem h it lid st) = Inl (Error r)
       \<and> last (trace (snd (deleteCustomerProductListItem h it lid st))) = Request req r"
proof -
  obtain r1 srv1 where a:
    "api h (server st) (Req_deleteCustomerProductListItem (customerId h) lid (id_ev it)) = (r1, srv1)"
    by (cases "api h (server st) (Req_deleteCustomerProductListItem (customerId h) lid (id_ev it))")
  show ?thesis
    using assms
    by (auto simp: deleteCustomerProductListItem_result [OF a] new_obs_def Let_def
        split: if_splits option.splits sum.splits)
qed

subsection \<open>The drain only appends to the trace and only shortens the queue\<close>

lemma updateItemToWishlist_frame:
  assumes "updateItemToWishlist h pid pli qty wid st = (r, st')"
  shows "prefix (trace st) (trace st') \<and> eventQueue st' = eventQueue st"
proof -
  let ?body = "\<lparr>productId = pid, priority = 1, quantity = js_add (quantity pli) qty, public = False,
     type_item = ''product''\<rparr>"
  obtain r1 srv1 where a:
    "api h (server st) (Req_updateCustomerProductListItem (customerId h) wid (id_item pli) ?body)
       = (r1, srv1)"
    by (cases "api h (server st)
       (Req_updateCustomerProductListItem (customerId h) wid (id_item pli) ?body)")
  obtain r2 srv2 where b: "api h srv1 (Req_getCustomerProductLists (customerId h)) = (r2, srv2)"
    by (cases "api h srv1 (Req_getCustomerProductLists (customerId h))")
  from assms show ?thesis
    by (auto simp: updateItemToWishlist_def updateCustomerProductListItem_result [OF a b]
        split: if_splits)
qed

lemma addItemToWishlist_frame:
  assumes "addItemToWishlist h pid qty wid st = (r, st')"
  shows "prefix (trace st) (trace st') \<and> eventQueue st' = eventQueue st"
proof -
  let ?body = "\<lparr>productId = pid, priority = 1, quantity = qty, public = False,
     type_item = ''product''\<rparr>"
  obtain r1 srv1 where a:
    "api h (server st) (Req_createCustomerProductListItem (customerId h) wid ?body) = (r1, srv1)"
    by (cases "api h (server st) (Req_createCustomerProductListItem (customerId h) wid ?body)")
  obtain r2 srv2 where b: "api h srv1 (Req_getCustomerProductLists (customerId h)) = (r2, srv2)"
    by (cases "api h srv1 (Req_getCustomerProductLists (customerId h))")
  from assms show ?thesis
    by (auto simp: addItemToWishlist_def createCustomerProductListItem_result [OF a b]
        split: if_splits)
qed

lemma deleteCustomerProductListItem_frame:
  assumes "deleteCustomerProductListItem h it lid st = (r, st')"
  shows "prefix (trace st) (trace st') \<and> eventQueue st' = eventQueue st"
proof -
  obtain r1 srv1 where a:
    "api h (server st) (Req_deleteCustomerProductListItem (customerId h) lid (id_ev it)) = (r1, srv1)"
    by (cases "api h (server st) (Req_deleteCustomerProductListItem (customerId h) lid (id_ev it))")
  from assms show ?thesis
    by (auto simp: deleteCustomerProductListItem_result [OF a] Let_def
        split: if_splits option.splits sum.splits)
qed

lemma optional_call_frame:
  "trace (optional_call f ob st) = trace st @ (case f of None \<Rightarrow> [] | Some cb \<Rightarrow> [ob cb])"
  "eventQueue (optional_call f ob st) = eventQueue st"
  by (simp_all add: optional_call_def invoke_def split: option.splits)

lemma try_ADD_frame:
  "try_ADD h ev st = (r, st') \<Longrightarrow> prefix (trace st) (trace st') \<and> eventQueue st' = eventQueue st"
  by (auto simp: try_ADD_def invoke_def optional_call_def
      split: sum.splits option.splits prod.splits
      dest: updateItemToWishlist_frame addItemToWishlist_frame)

lemma try_REMOVE_frame:
  "try_REMOVE h ev st = (r, st') \<Longrightarrow> prefix (trace st) (trace st') \<and> eventQueue st' = eventQueue st"
  by (auto simp: try_REMOVE_def invoke_def optional_call_def
      split: sum.splits option.splits prod.splits
      dest: deleteCustomerProductListItem_frame)

lemma processEvent_frame:
  "prefix (trace st) (trace (snd (processEvent h ev st)))
   \<and> eventQueue (snd (processEvent h ev st)) = eventQueue st"
  by (auto simp: processEvent_def invoke_def optional_call_def
      split: sum.splits option.splits prod.splits
      dest: try_ADD_frame try_REMOVE_frame)

lemma trace_processEventQueue: "prefix (trace st) (trace (processEventQueue h st))"
proof (induction h st rule: processEventQueue.induct)
  case (1 h st)
  show ?case
  proof (cases "eventQueue st")
    case Nil
    then show ?thesis by (simp add: processEventQueue_Nil)
  next
    case (Cons ev rest)
    obtain c st1 where p: "processEvent h ev (st\<lparr>eventQueue := rest\<rparr>) = (c, st1)"
      by (cases "processEvent h ev (st\<lparr>eventQueue := rest\<rparr>)")
    have t: "prefix (trace st) (trace st1)"
      using processEvent_frame [of "st\<lparr>eventQueue := rest\<rparr>" h ev] p by simp
    show ?thesis
    proof (cases c)
      case Return
      with Cons p t show ?thesis by (simp add: processEventQueue_Cons)
    next
      case Break
      with "1.IH" [OF Cons p [symmetric]] have "prefix (trace st1) (trace (processEventQueue h st1))"
        by simp
      with Cons p t Break show ?thesis
        by (simp add: processEventQueue_Cons)
    qed
  qed
qed

lemma drain_extends_step:
  assumes "eventQueue st = ev # rest"
  shows "prefix (trace (snd (processEvent h ev (st\<lparr>eventQueue := rest\<rparr>))))
           (trace (processEventQueue h st))"
proof -
  obtain c st1 where p: "processEvent h ev (st\<lparr>eventQueue := rest\<rparr>) = (c, st1)"
    by (cases "processEvent h ev (st\<lparr>eventQueue := rest\<rparr>)")
  show ?thesis
    using assms p trace_processEventQueue [of st1 h]
    by (cases c) (simp_all add: processEventQueue_Cons)
qed

text \<open>What is left in the queue is a tail of it: actions leave the queue from the head.\<close>

lemma drain_leaves_a_tail: "suffix (eventQueue (processEventQueue h st)) (eventQueue st)"
proof (induction h st rule: processEventQueue.induct)
  case (1 h st)
  show ?case
  proof (cases "eventQueue st")
    case Nil
    then show ?thesis by (simp add: processEventQueue_Nil)
  next
    case (Cons ev rest)
    obtain c st1 where p: "processEvent h ev (st\<lparr>eventQueue := rest\<rparr>) = (c, st1)"
      by (cases "processEvent h ev (st\<lparr>eventQueue := rest\<rparr>)")
    have e: "eventQueue st1 = rest"
      using processEvent_frame [of "st\<lparr>eventQueue := rest\<rparr>" h ev] p by simp
    show ?thesis
    proof (cases c)
      case Return
      with Cons p e show ?thesis by (simp add: processEventQueue_Cons suffix_Cons)
    next
      case Break
      with "1.IH" [OF Cons p [symmetric]]
      have "suffix (eventQueue (processEventQueue h st1)) (eventQueue st1)"
        by simp
      with Cons p e Break show ?thesis
        by (simp add: processEventQueue_Cons suffix_Cons)
    qed
  qed
qed

text \<open>
  Every event of the queue is either shifted by the loop, and is then the head of the
  queue of the state the drain has reached, or is still queued when the drain returns.
\<close>

lemma drain_reaches_or_returns:
  assumes "eventQueue st = pre @ ev # rest"
  shows "(\<exists>st'. eventQueue st' = ev # rest \<and> prefix (trace st) (trace st')
            \<and> processEventQueue h st = processEventQueue h st')
       \<or> suffix (ev # rest) (eventQueue (processEventQueue h st))"
  using assms
proof (induction pre arbitrary: st)
  case Nil
  then have "eventQueue st = ev # rest \<and> prefix (trace st) (trace st)
      \<and> processEventQueue h st = processEventQueue h st"
    by simp
  then show ?case
    by blast
next
  case (Cons e pre)
  let ?q = "pre @ ev # rest"
  from Cons.prems have q: "eventQueue st = e # ?q"
    by simp
  obtain c st1 where p: "processEvent h e (st\<lparr>eventQueue := ?q\<rparr>) = (c, st1)"
    by (cases "processEvent h e (st\<lparr>eventQueue := ?q\<rparr>)")
  from processEvent_frame [of "st\<lparr>eventQueue := ?q\<rparr>" h e] p
  have t: "prefix (trace st) (trace st1)" and e: "eventQueue st1 = ?q"
    by simp_all
  show ?case
  proof (cases c)
    case Return
    with q p have "processEventQueue h st = st1"
      by (simp add: processEventQueue_Cons)
    with e have "suffix (ev # rest) (eventQueue (processEventQueue h st))"
      by (simp add: suffix_def)
    then show ?thesis
      by blast
  next
    case Break
    with q p have d: "processEventQueue h st = processEventQueue h st1"
      by (simp add: processEventQueue_Cons)
    from Cons.IH [OF e] show ?thesis
    proof
      assume "\<exists>st'. eventQueue st' = ev # rest \<and> prefix (trace st1) (trace st')
          \<and> processEventQueue h st1 = processEventQueue h st'"
      then obtain st' where "eventQueue st' = ev # rest" "prefix (trace st1) (trace st')"
        "processEventQueue h st1 = processEventQueue h st'"
        by blast
      with t d have "eventQueue st' = ev # rest \<and> prefix (trace st) (trace st')
          \<and> processEventQueue h st = processEventQueue h st'"
        using prefix_order.trans by auto
      then show ?thesis
        by blast
    next
      assume "suffix (ev # rest) (eventQueue (processEventQueue h st1))"
      with d show ?thesis
        by simp
    qed
  qed
qed

subsection \<open>One iteration on an add or a remove event\<close>

lemma processEvent_update:
  assumes "action ev = ADD"
    and "getProductListPerType h (WISHLIST h) = Inr (Some wishlist)"
    and "customerProductListItems wishlist = Some items"
    and "find (\<lambda>i. productId i = id_ev (item ev)) items
           = Some productListItem"
    and "api h (server st)
           (Req_updateCustomerProductListItem (customerId h) (id_list wishlist)
              (id_item productListItem)
              \<lparr>productId = id_ev (item ev), priority = 1,
               quantity = js_add (quantity productListItem) (quantity_ev (item ev)),
               public = False, type_item = ''product''\<rparr>) = (r1, srv1)"
    and "api h srv1 (Req_getCustomerProductLists (customerId h)) = (r2, srv2)"
  shows "processEvent h ev st =
     (if isError h r1 then
        (Break, optional_call (onError ev) OnError
           (st\<lparr>isLoading := False, server := srv1,
               trace := trace st @
                 [Request (Req_updateCustomerProductListItem (customerId h) (id_list wishlist)
                    (id_item productListItem)
                    \<lparr>productId = id_ev (item ev), priority = 1,
                     quantity = js_add (quantity productListItem) (quantity_ev (item ev)),
                     public = False, type_item = ''product''\<rparr>) r1]\<rparr>))
      else if isError h r2 then
        (Break, optional_call (onError ev) OnError
           (st\<lparr>isLoading := False, server := srv2,
               trace := trace st @
                 [Request (Req_updateCustomerProductListItem (customerId h) (id_list wishlist)
                    (id_item productListItem)
                    \<lparr>productId = id_ev (item ev), priority = 1,
                     quantity = js_add (quantity productListItem) (quantity_ev (item ev)),
                     public = False, type_item = ''product''\<rparr>) r1,
                  Request (Req_getCustomerProductLists (customerId h)) r2]\<rparr>))
      else
        (case onSuccess ev of
           None \<Rightarrow>
             (Break, optional_call (onError ev) OnError
                (st\<lparr>isLoading := False, server := srv2,
                    trace := trace st @
                      [Request (Req_updateCustomerProductListItem (customerId h) (id_list wishlist)
                         (id_item productListItem)
                         \<lparr>productId = id_ev (item ev), priority = 1,
                          quantity = js_add (quantity productListItem) (quantity_ev (item ev)),
                          public = False, type_item = ''product''\<rparr>) r1,
                       Request (Req_getCustomerProductLists (customerId h)) r2],
 store := r2\<rparr>))
         | Some cb \<Rightarrow>
             (Return,
              st\<lparr>isLoading := False, server := srv2,
                 trace := trace st @
                   [Request (Req_updateCustomerProductListItem (customerId h) (id_list wishlist)
                      (id_item productListItem)
                      \<lparr>productId = id_ev (item ev), priority = 1,
                       quantity = js_add (quantity productListItem) (quantity_ev (item ev)),
                       public = False, type_item = ''product''\<rparr>) r1,
                    Request (Req_getCustomerProductLists (customerId h)) r2,
                    OnSuccess cb [quantity_ev (item ev)]],
 store := r2\<rparr>)))"
  using assms(1-4)
  by (simp add: processEvent_def try_ADD_def updateItemToWishlist_def invoke_def
      updateCustomerProductListItem_result [OF assms(5,6)] split: option.splits)

lemma processEvent_create:
  assumes "action ev = ADD"
    and "getProductListPerType h (WISHLIST h) = Inr (Some wishlist)"
    and "customerProductListItems wishlist = Some items"
    and "find (\<lambda>i. productId i = id_ev (item ev)) items = None"
    and "api h (server st)
           (Req_createCustomerProductListItem (customerId h) (id_list wishlist)
              \<lparr>productId = id_ev (item ev), priority = 1, quantity = quantity_ev (item ev),
               public = False, type_item = ''product''\<rparr>) = (r1, srv1)"
    and "api h srv1 (Req_getCustomerProductLists (customerId h)) = (r2, srv2)"
  shows "processEvent h ev st =
     (if isError h r1 then
        (Break, optional_call (onError ev) OnError
           (st\<lparr>isLoading := False, server := srv1,
               trace := trace st @
                 [Request (Req_createCustomerProductListItem (customerId h) (id_list wishlist)
                    \<lparr>productId = id_ev (item ev), priority = 1,
                     quantity = quantity_ev (item ev),
                     public = False, type_item = ''product''\<rparr>) r1]\<rparr>))
      else if isError h r2 then
        (Break, optional_call (onError ev) OnError
           (st\<lparr>isLoading := False, server := srv2,
               trace := trace st @
                 [Request (Req_createCustomerProductListItem (customerId h) (id_list wishlist)
                    \<lparr>productId = id_ev (item ev), priority = 1,
                     quantity = quantity_ev (item ev),
                     public = False, type_item = ''product''\<rparr>) r1,
                  Request (Req_getCustomerProductLists (customerId h)) r2]\<rparr>))
      else
        (Return,
         optional_call (onSuccess ev) (\<lambda>cb. OnSuccess cb [quantity_ev (item ev)])
           (st\<lparr>isLoading := False, server := srv2,
               trace := trace st @
                 [Request (Req_createCustomerProductListItem (customerId h) (id_list wishlist)
                    \<lparr>productId = id_ev (item ev), priority = 1,
                     quantity = quantity_ev (item ev),
                     public = False, type_item = ''product''\<rparr>) r1,
                  Request (Req_getCustomerProductLists (customerId h)) r2],
 store := r2\<rparr>)))"
  using assms(1-4)
  by (simp add: processEvent_def try_ADD_def addItemToWishlist_def
      createCustomerProductListItem_result [OF assms(5,6)])

lemma processEvent_remove:
  assumes "action ev = REMOVE"
  shows "processEvent h ev st =
     (case deleteCustomerProductListItem h (item ev) (listId ev) st of
        (Inl e, st1) \<Rightarrow> (Break, optional_call (onError ev) OnError st1)
      | (Inr u, st1) \<Rightarrow> (Break, optional_call (onSuccess ev) (\<lambda>cb. OnSuccess cb []) st1))"
  using assms ADD_neq_REMOVE
  by (auto simp: processEvent_def try_REMOVE_def split: prod.splits sum.splits)

text \<open>
  Only the add case contains a \<open>return\<close>: an event of any other kind lets the loop
  go on, so a queue without add events is drained to the end.
\<close>

lemma processEvent_not_add: "action ev \<noteq> ADD \<Longrightarrow> fst (processEvent h ev st) = Break"
  by (auto simp: processEvent_def try_REMOVE_def split: prod.splits sum.splits)

lemma drain_without_add_empties_queue:
  "\<forall>ev \<in> set (eventQueue st). action ev \<noteq> ADD \<Longrightarrow> eventQueue (processEventQueue h st) = []"
proof (induction h st rule: processEventQueue.induct)
  case (1 h st)
  show ?case
  proof (cases "eventQueue st")
    case Nil
    then show ?thesis by (simp add: processEventQueue_Nil)
  next
    case (Cons ev rest)
    obtain c st1 where p: "processEvent h ev (st\<lparr>eventQueue := rest\<rparr>) = (c, st1)"
      by (cases "processEvent h ev (st\<lparr>eventQueue := rest\<rparr>)")
    have e: "eventQueue st1 = rest"
      using processEvent_frame [of "st\<lparr>eventQueue := rest\<rparr>" h ev] p by simp
    from "1.prems" Cons have "action ev \<noteq> ADD"
      by simp
    with p have c: "c = Break"
      using processEvent_not_add [of ev h "st\<lparr>eventQueue := rest\<rparr>"] by simp
    from "1.prems" Cons e have "\<forall>ev \<in> set (eventQueue st1). action ev \<noteq> ADD"
      by simp
    with "1.IH" [OF Cons p [symmetric]] c have "eventQueue (processEventQueue h st1) = []"
      by simp
    with Cons p c show ?thesis
      by (simp add: processEventQueue_Cons)
  qed
qed

text \<open>
  An add whose requests succeed ends the drain at once (when the item is new, whether
  or not the event has a success callback): the rest of the queue stays queued.
\<close>

lemma successful_create_ends_drain:
  assumes "eventQueue st = ev # rest"
    and "action ev = ADD"
    and "getProductListPerType h (WISHLIST h) = Inr (Some wishlist)"
    and "customerProductListItems wishlist = Some items"
    and "find (\<lambda>i. productId i = id_ev (item ev)) items = None"
    and "api h (server st)
           (Req_createCustomerProductListItem (customerId h) (id_list wishlist)
              \<lparr>productId = id_ev (item ev), priority = 1, quantity = quantity_ev (item ev),
               public = False, type_item = ''product''\<rparr>) = (r1, srv1)"
    and "api h srv1 (Req_getCustomerProductLists (customerId h)) = (r2, srv2)"
    and "\<not> isError h r1" and "\<not> isError h r2"
  shows "eventQueue (processEventQueue h st) = rest"
proof -
  from assms(6) have a: "api h (server (st\<lparr>eventQueue := rest\<rparr>))
           (Req_createCustomerProductListItem (customerId h) (id_list wishlist)
              \<lparr>productId = id_ev (item ev), priority = 1, quantity = quantity_ev (item ev),
               public = False, type_item = ''product''\<rparr>) = (r1, srv1)"
    by simp
  show ?thesis
    using assms(8,9)
    by (simp add: processEventQueue_Cons [OF assms(1)]
        processEvent_create [OF assms(2,3,4,5) a assms(7)] optional_call_frame)
qed


subsection \<open>Getting to an event further down the queue\<close>

lemma drain_past_reaches:
  assumes "eventQueue st = pre @ q" and "drain_past h pre st = Some st'"
  shows "eventQueue st' = q \<and> prefix (trace st) (trace st')
       \<and> processEventQueue h st = processEventQueue h st'"
  using assms
proof (induction pre arbitrary: st)
  case Nil
  then show ?case by simp
next
  case (Cons e pre)
  let ?q = "pre @ q"
  from Cons.prems(1) have q: "eventQueue st = e # ?q"
    by simp
  obtain c st1 where p: "processEvent h e (st\<lparr>eventQueue := ?q\<rparr>) = (c, st1)"
    by (cases "processEvent h e (st\<lparr>eventQueue := ?q\<rparr>)")
  from Cons.prems(2) q p have c: "c = Break"
    by (cases c) simp_all
  with Cons.prems(2) q p have past: "drain_past h pre st1 = Some st'"
    by simp
  from processEvent_frame [of "st\<lparr>eventQueue := ?q\<rparr>" h e] p
  have t: "prefix (trace st) (trace st1)" and e: "eventQueue st1 = ?q"
    by simp_all
  from Cons.IH [OF e past] have "eventQueue st' = q" "prefix (trace st1) (trace st')"
    "processEventQueue h st1 = processEventQueue h st'"
    by simp_all
  with q p c t show ?case
    using prefix_order.trans by (auto simp: processEventQueue_Cons)
qed

text \<open>The loop gets past every event that is not an add.\<close>

lemma drain_past_without_add:
  "\<forall>e \<in> set pre. action e \<noteq> ADD \<Longrightarrow> \<exists>st'. drain_past h pre st = Some st'"
proof (induction pre arbitrary: st)
  case Nil
  then show ?case by simp
next
  case (Cons e pre)
  obtain c st1 where p: "processEvent h e (st\<lparr>eventQueue := tl (eventQueue st)\<rparr>) = (c, st1)"
    by (cases "processEvent h e (st\<lparr>eventQueue := tl (eventQueue st)\<rparr>)")
  from Cons.prems have "action e \<noteq> ADD"
    by simp
  with p have "c = Break"
    using processEvent_not_add [of e h "st\<lparr>eventQueue := tl (eventQueue st)\<rparr>"] by simp
  with p Cons.IH [of st1] Cons.prems show ?case
    by simp
qed

subsection \<open>An add event at the head of the queue\<close>

lemma add_existing_at_head:
  assumes q: "eventQueue st = ev # rest"
    and act: "action ev = ADD"
    and w: "getProductListPerType h (WISHLIST h) = Inr (Some wishlist)"
    and its: "customerProductListItems wishlist = Some items"
    and f: "find (\<lambda>i. productId i = id_ev (item ev)) items
           = Some productListItem"
    and a1: "api h (server st)
           (Req_updateCustomerProductListItem (customerId h) (id_list wishlist)
              (id_item productListItem)
              \<lparr>productId = id_ev (item ev), priority = 1,
               quantity = js_add (quantity productListItem) (quantity_ev (item ev)),
               public = False, type_item = ''product''\<rparr>) = (r1, srv1)"
    and a2: "api h srv1 (Req_getCustomerProductLists (customerId h)) = (r2, srv2)"
  shows "prefix
           (trace st @
             [Request (Req_updateCustomerProductListItem (customerId h) (id_list wishlist)
                (id_item productListItem)
                \<lparr>productId = id_ev (item ev), priority = 1,
                 quantity = js_add (quantity productListItem) (quantity_ev (item ev)),
                 public = False, type_item = ''product''\<rparr>) r1])
           (trace (processEventQueue h st))
       \<and> (\<not> isError h r1 \<and> \<not> isError h r2 \<and> onSuccess ev = Some cb \<longrightarrow>
            prefix
              (trace st @
                [Request (Req_updateCustomerProductListItem (customerId h) (id_list wishlist)
                   (id_item productListItem)
                   \<lparr>productId = id_ev (item ev), priority = 1,
                    quantity = js_add (quantity productListItem) (quantity_ev (item ev)),
                    public = False, type_item = ''product''\<rparr>) r1,
                 Request (Req_getCustomerProductLists (customerId h)) r2,
                 OnSuccess cb [quantity_ev (item ev)]])
              (trace (processEventQueue h st)))"
proof -
  let ?st0 = "st\<lparr>eventQueue := rest\<rparr>"
  let ?upd = "Request (Req_updateCustomerProductListItem (customerId h) (id_list wishlist)
                (id_item productListItem)
                \<lparr>productId = id_ev (item ev), priority = 1,
                 quantity = js_add (quantity productListItem) (quantity_ev (item ev)),
                 public = False, type_item = ''product''\<rparr>) r1"
  from a1 have a1': "api h (server ?st0)
           (Req_updateCustomerProductListItem (customerId h) (id_list wishlist)
              (id_item productListItem)
              \<lparr>productId = id_ev (item ev), priority = 1,
               quantity = js_add (quantity productListItem) (quantity_ev (item ev)),
               public = False, type_item = ''product''\<rparr>) = (r1, srv1)"
    by simp
  note step = processEvent_update [OF act w its f a1' a2]
  have "prefix (trace st @ [?upd]) (trace (snd (processEvent h ev ?st0)))"
    by (simp add: step optional_call_def invoke_def split: option.splits)
  with drain_extends_step [OF q, of h] have first: "prefix (trace st @ [?upd])
      (trace (processEventQueue h st))"
    by (rule prefix_order.trans [rotated])
  have second: "trace (processEventQueue h st) =
      trace st @ [?upd, Request (Req_getCustomerProductLists (customerId h)) r2,
        OnSuccess cb [quantity_ev (item ev)]]"
    if "\<not> isError h r1" "\<not> isError h r2" "onSuccess ev = Some cb"
    using that by (simp add: processEventQueue_Cons [OF q] step)
  from first second show ?thesis
    by auto
qed

lemma add_new_at_head:
  assumes q: "eventQueue st = ev # rest"
    and act: "action ev = ADD"
    and w: "getProductListPerType h (WISHLIST h) = Inr (Some wishlist)"
    and its: "customerProductListItems wishlist = Some items"
    and f: "find (\<lambda>i. productId i = id_ev (item ev)) items = None"
    and a1: "api h (server st)
           (Req_createCustomerProductListItem (customerId h) (id_list wishlist)
              \<lparr>productId = id_ev (item ev), priority = 1, quantity = quantity_ev (item ev),
               public = False, type_item = ''product''\<rparr>) = (r1, srv1)"
    and a2: "api h srv1 (Req_getCustomerProductLists (customerId h)) = (r2, srv2)"
  shows "prefix
           (trace st @
             [Request (Req_createCustomerProductListItem (customerId h) (id_list wishlist)
                \<lparr>productId = id_ev (item ev), priority = 1, quantity = quantity_ev (item ev),
                 public = False, type_item = ''product''\<rparr>) r1])
           (trace (processEventQueue h st))
       \<and> (\<not> isError h r1 \<and> \<not> isError h r2 \<longrightarrow>
            prefix
              (trace st @
                [Request (Req_createCustomerProductListItem (customerId h) (id_list wishlist)
                   \<lparr>productId = id_ev (item ev), priority = 1,
                    quantity = quantity_ev (item ev),
                    public = False, type_item = ''product''\<rparr>) r1,
                 Request (Req_getCustomerProductLists (customerId h)) r2] @
                (case onSuccess ev of
                   None \<Rightarrow> []
                 | Some cb \<Rightarrow> [OnSuccess cb [quantity_ev (item ev)]]))
              (trace (processEventQueue h st)))"
proof -
  let ?st0 = "st\<lparr>eventQueue := rest\<rparr>"
  let ?crt = "Request (Req_createCustomerProductListItem (customerId h) (id_list wishlist)
                \<lparr>productId = id_ev (item ev), priority = 1, quantity = quantity_ev (item ev),
                 public = False, type_item = ''product''\<rparr>) r1"
  from a1 have a1': "api h (server ?st0)
           (Req_createCustomerProductListItem (customerId h) (id_list wishlist)
              \<lparr>productId = id_ev (item ev), priority = 1, quantity = quantity_ev (item ev),
               public = False, type_item = ''product''\<rparr>) = (r1, srv1)"
    by simp
  note step = processEvent_create [OF act w its f a1' a2]
  have "prefix (trace st @ [?crt]) (trace (snd (processEvent h ev ?st0)))"
    by (simp add: step optional_call_def invoke_def split: option.splits)
  with drain_extends_step [OF q, of h] have first: "prefix (trace st @ [?crt])
      (trace (processEventQueue h st))"
    by (rule prefix_order.trans [rotated])
  have second: "trace (processEventQueue h st) =
      trace st @ [?crt, Request (Req_getCustomerProductLists (customerId h)) r2] @
        (case onSuccess ev of None \<Rightarrow> [] | Some cb \<Rightarrow> [OnSuccess cb [quantity_ev (item ev)]])"
    if "\<not> isError h r1" "\<not> isError h r2"
    using that
    by (simp add: processEventQueue_Cons [OF q] step optional_call_def invoke_def
        split: option.splits)
  from first second show ?thesis
    by auto
qed

text \<open>
  Line 33 reads \<open>wishlist.customerProductListItems\<close> without a guard: on a wishlist
  object without that key the add throws before any request is made.
\<close>

lemma add_on_wishlist_without_items_throws:
  assumes "eventQueue st = ev # rest"
    and "action ev = ADD"
    and "getProductListPerType h (WISHLIST h) = Inr (Some wishlist)"
    and "customerProductListItems wishlist = None"
  shows "processEventQueue h st =
           processEventQueue h (optional_call (onError ev) OnError (st\<lparr>eventQueue := rest\<rparr>))"
  using assms(2-4)
  by (simp add: processEventQueue_Cons [OF assms(1)] processEvent_def try_ADD_def)

subsection \<open>Facts about the concrete inputs\<close>

lemma ex_hook_simps:
  "api ex_hook = ex_api_ok" "isError ex_hook = ex_isError" "customerId ex_hook = ''c1''"
  "WISHLIST ex_hook = ''wish_list''" "customerProductLists ex_hook = Some ex_snapshot"
  by (simp_all add: ex_hook_def)

lemma ex_failing_hook_simps:
  "api ex_failing_hook = ex_api_fail" "isError ex_failing_hook = ex_isError"
  "customerId ex_failing_hook = ''c1''"
  by (simp_all add: ex_failing_hook_def ex_hook_def)

lemma ex_snapshot_ok: "\<not> ex_isError (Some ex_snapshot)"
  by (simp add: ex_isError_def ex_snapshot_def)

lemma lists_of_ex_snapshot: "lists_of (Some ex_snapshot) = [ex_wishlist, ex_other_list]"
  by (simp add: lists_of_def ex_snapshot_def)

lemma ex_wishlist_found:
  "getProductListPerType ex_hook (WISHLIST ex_hook) = Inr (Some ex_wishlist)"
  "getProductListPerType ex_failing_hook (WISHLIST ex_failing_hook) = Inr (Some ex_wishlist)"
  by (simp_all add: getProductListPerType_def ex_failing_hook_def ex_hook_def ex_snapshot_def
      ex_wishlist_def ex_other_list_def)

lemma ex_items: "customerProductListItems ex_wishlist = Some [ex_item, ex_other_item]"
  by (simp add: ex_wishlist_def)

lemma ex_find_p1:
  "find (\<lambda>i. productId i = ''p1'') [ex_item, ex_other_item] = Some ex_item"
  by (simp add: ex_item_def)

lemma ex_find_p3:
  "find (\<lambda>i. productId i = ''p3'') [ex_item, ex_other_item] = None"
  by (simp add: ex_item_def ex_other_item_def)

lemma ex_ids:
  "id_list ex_wishlist = ''l1''" "id_item ex_item = ''i1''" "quantity ex_item = Number 3"
  by (simp_all add: ex_wishlist_def ex_item_def)

lemma ex_api_ok_any: "api ex_hook srv req = (Some ex_snapshot, ())"
  by (simp add: ex_hook_simps ex_api_ok_def)

lemma ex_api_fail_any: "api ex_failing_hook srv req = (Some ex_fault, ())"
  by (simp add: ex_failing_hook_simps ex_api_fail_def)

lemma ex_fault_is_error: "isError ex_failing_hook (Some ex_fault)"
  by (simp add: ex_failing_hook_simps ex_isError_def ex_fault_def)

lemma ex_snapshot_no_error: "\<not> isError ex_hook (Some ex_snapshot)"
  by (simp add: ex_hook_simps ex_snapshot_ok)

section \<open>Draining: add events\<close>

text \<open>
  An event further down the queue is reached when the loop is done with the events
  before it; \<open>drain_past\<close> gives the state in which it then finds the event at the head
  of the queue. The wishlist is looked up in the context value of the render that
  started the drain (the closure of \<open>self\<close>), not in the value written since.
\<close>

text \<open>
  C1, in the form that holds of the code. For every queued add action that the drain
  takes from the queue (the loop having got past the actions before it) and whose product
  id matches an item of the wishlist, the drain issues, after what it did before, an
  update request for that item whose quantity is the sum of the item's quantity and the
  requested quantity as JavaScript adds numbers, which is their exact sum when the two
  are integers and the sum is below \<open>2 ^ 53\<close> in magnitude; and when that request and
  the re-fetch after it are answered without error and the action has a success callback,
  the drain invokes the callback with the requested quantity (not with the sum).
\<close>

theorem add_existing_updates_quantity_sum:
  assumes q: "eventQueue st = pre @ ev # rest"
    and past: "drain_past h pre st = Some st'"
    and act: "action ev = ADD"
    and w: "getProductListPerType h (WISHLIST h) = Inr (Some wishlist)"
    and its: "customerProductListItems wishlist = Some items"
    and f: "find (\<lambda>i. productId i = id_ev (item ev)) items = Some productListItem"
    and a1: "api h (server st')
           (Req_updateCustomerProductListItem (customerId h) (id_list wishlist)
              (id_item productListItem)
              \<lparr>productId = id_ev (item ev), priority = 1,
               quantity = js_add (quantity productListItem) (quantity_ev (item ev)),
               public = False, type_item = ''product''\<rparr>) = (r1, srv1)"
    and a2: "api h srv1 (Req_getCustomerProductLists (customerId h)) = (r2, srv2)"
  shows "prefix (trace st) (trace st')
       \<and> prefix
           (trace st' @
             [Request (Req_updateCustomerProductListItem (customerId h) (id_list wishlist)
                (id_item productListItem)
                \<lparr>productId = id_ev (item ev), priority = 1,
                 quantity = js_add (quantity productListItem) (quantity_ev (item ev)),
                 public = False, type_item = ''product''\<rparr>) r1])
           (trace (processEventQueue h st))
       \<and> (quantity productListItem = Number a \<and> quantity_ev (item ev) = Number b
            \<and> \<bar>a + b\<bar> < 9007199254740992 \<longrightarrow>
            js_add (quantity productListItem) (quantity_ev (item ev)) = Number (a + b))
       \<and> (\<not> isError h r1 \<and> \<not> isError h r2 \<and> onSuccess ev = Some cb \<longrightarrow>
            prefix
              (trace st' @
                [Request (Req_updateCustomerProductListItem (customerId h) (id_list wishlist)
                   (id_item productListItem)
                   \<lparr>productId = id_ev (item ev), priority = 1,
                    quantity = js_add (quantity productListItem) (quantity_ev (item ev)),
                    public = False, type_item = ''product''\<rparr>) r1,
                 Request (Req_getCustomerProductLists (customerId h)) r2,
                 OnSuccess cb [quantity_ev (item ev)]])
              (trace (processEventQueue h st)))"
proof -
  from drain_past_reaches [OF q past]
  have q': "eventQueue st' = ev # rest" and t: "prefix (trace st) (trace st')"
    and d: "processEventQueue h st = processEventQueue h st'"
    by simp_all
  note at_head = add_existing_at_head [OF q' act w its f a1 a2, of cb]
  have exact: "js_add (quantity productListItem) (quantity_ev (item ev)) = Number (a + b)"
    if "quantity productListItem = Number a" "quantity_ev (item ev) = Number b"
      "\<bar>a + b\<bar> < 9007199254740992"
    using that by (simp add: round_to_double_exact)
  from t at_head exact show ?thesis
    unfolding d by blast
qed

theorem add_existing_updates_quantity_sum_witness:
  "prefix
     [Request (Req_deleteCustomerProductListItem ''c1'' (Some ''l1'') ''i2'') (Some ex_snapshot),
      OnSuccess (Callback ''removed'') [],
      Request (Req_updateCustomerProductListItem ''c1'' ''l1'' ''i1''
        \<lparr>productId = ''p1'', priority = 1, quantity = Number (3 + 2), public = False,
         type_item = ''product''\<rparr>) (Some ex_snapshot),
      Request (Req_getCustomerProductLists ''c1'') (Some ex_snapshot),
      OnSuccess (Callback ''added'') [Number 2]]
     (trace (processEventQueue ex_hook (ex_state [ex_remove_i2, ex_add_p1])))"
proof -
  let ?s0 = "ex_state [ex_remove_i2, ex_add_p1]"
  have q: "eventQueue ?s0 = [ex_remove_i2] @ ex_add_p1 # []"
    by (simp add: ex_state_def)
  have "\<exists>st'. drain_past ex_hook [ex_remove_i2] ?s0 = Some st'
      \<and> trace st' =
          [Request (Req_deleteCustomerProductListItem ''c1'' (Some ''l1'') ''i2'')
             (Some ex_snapshot),
           OnSuccess (Callback ''removed'') []]"
    by (simp add: drain_defs remove_from_list_def ex_defs)
  then obtain st' where past: "drain_past ex_hook [ex_remove_i2] ?s0 = Some st'"
    and t: "trace st' =
          [Request (Req_deleteCustomerProductListItem ''c1'' (Some ''l1'') ''i2'')
             (Some ex_snapshot),
           OnSuccess (Callback ''removed'') []]"
    by blast
  have act: "action ex_add_p1 = ADD"
    by (simp add: ex_add_p1_def ADD_def)
  have f: "find (\<lambda>i. productId i = id_ev (item ex_add_p1)) [ex_item, ex_other_item]
      = Some ex_item"
    using ex_find_p1 by (simp add: ex_add_p1_def)
  have cb: "onSuccess ex_add_p1 = Some (Callback ''added'')"
    by (simp add: ex_add_p1_def)
  have sum: "js_add (quantity ex_item) (quantity_ev (item ex_add_p1)) = Number (3 + 2)"
    by (simp add: ex_ids ex_add_p1_def round_to_double_exact)
  from add_existing_updates_quantity_sum
    [OF q past act ex_wishlist_found(1) ex_items f ex_api_ok_any ex_api_ok_any,
      of _ _ "Callback ''added''"]
    ex_snapshot_no_error cb
  have "prefix
      (trace st' @
        [Request (Req_updateCustomerProductListItem (customerId ex_hook) (id_list ex_wishlist)
           (id_item ex_item)
           \<lparr>productId = id_ev (item ex_add_p1), priority = 1,
            quantity = js_add (quantity ex_item) (quantity_ev (item ex_add_p1)),
            public = False, type_item = ''product''\<rparr>) (Some ex_snapshot),
         Request (Req_getCustomerProductLists (customerId ex_hook)) (Some ex_snapshot),
         OnSuccess (Callback ''added'') [quantity_ev (item ex_add_p1)]])
      (trace (processEventQueue ex_hook ?s0))"
    by blast
  then show ?thesis
    by (simp add: t ex_hook_simps ex_ids ex_add_p1_def round_to_double_exact)
qed

text \<open>
  C1 as stated fails. With \<open>p1\<close> in the wishlist at quantity 3 and a queued add of
  quantity 2, the update request carries 5 but the success callback receives 2; it is
  never invoked with 5. And with \<open>p1\<close> at quantity \<open>2 ^ 53\<close> and a queued add of 1,
  the update request carries \<open>2 ^ 53\<close>, which is not the sum of the two.
\<close>

theorem onSuccess_receives_requested_quantity_counterexample:
  "trace (processEventQueue ex_hook (ex_state [ex_add_p1])) =
       [Request (Req_updateCustomerProductListItem ''c1'' ''l1'' ''i1''
          \<lparr>productId = ''p1'', priority = 1, quantity = Number 5, public = False,
           type_item = ''product''\<rparr>) (Some ex_snapshot),
        Request (Req_getCustomerProductLists ''c1'') (Some ex_snapshot),
        OnSuccess (Callback ''added'') [Number 2]]
   \<and> OnSuccess (Callback ''added'') [Number 5]
       \<notin> set (trace (processEventQueue ex_hook (ex_state [ex_add_p1])))
   \<and> trace (processEventQueue ex_large_hook (ex_state [ex_add_one_p1])) =
       [Request (Req_updateCustomerProductListItem ''c1'' ''l1'' ''i1''
          \<lparr>productId = ''p1'', priority = 1, quantity = Number 9007199254740992,
           public = False, type_item = ''product''\<rparr>) (Some ex_snapshot),
        Request (Req_getCustomerProductLists ''c1'') (Some ex_snapshot),
        OnSuccess (Callback ''added'') [Number 1]]"
  by (simp add: processEventQueue_Cons processEventQueue_Nil drain_defs ex_defs ex_add_p1_def
      ex_large_hook_def ex_large_snapshot_def ex_add_one_p1_def round_to_double_exact
      round_to_double_rounds)

text \<open>
  For an add whose product id matches no item of the wishlist the same holds with a
  create request: the drain issues it, with the requested quantity, for every such
  action it takes from the queue, and invokes the success callback, if there is one, with
  the requested quantity when the request and the re-fetch are answered without error.
\<close>

lemma dispatched_add_new_creates_item:
  assumes q: "eventQueue st = pre @ ev # rest"
    and past: "drain_past h pre st = Some st'"
    and act: "action ev = ADD"
    and w: "getProductListPerType h (WISHLIST h) = Inr (Some wishlist)"
    and its: "customerProductListItems wishlist = Some items"
    and f: "find (\<lambda>i. productId i = id_ev (item ev)) items = None"
    and a1: "api h (server st')
           (Req_createCustomerProductListItem (customerId h) (id_list wishlist)
              \<lparr>productId = id_ev (item ev), priority = 1, quantity = quantity_ev (item ev),
               public = False, type_item = ''product''\<rparr>) = (r1, srv1)"
    and a2: "api h srv1 (Req_getCustomerProductLists (customerId h)) = (r2, srv2)"
  shows "prefix (trace st) (trace st')
       \<and> prefix
           (trace st' @
             [Request (Req_createCustomerProductListItem (customerId h) (id_list wishlist)
                \<lparr>productId = id_ev (item ev), priority = 1, quantity = quantity_ev (item ev),
                 public = False, type_item = ''product''\<rparr>) r1])
           (trace (processEventQueue h st))
       \<and> (\<not> isError h r1 \<and> \<not> isError h r2 \<longrightarrow>
            prefix
              (trace st' @
                [Request (Req_createCustomerProductListItem (customerId h) (id_list wishlist)
                   \<lparr>productId = id_ev (item ev), priority = 1,
                    quantity = quantity_ev (item ev),
                    public = False, type_item = ''product''\<rparr>) r1,
                 Request (Req_getCustomerProductLists (customerId h)) r2] @
                (case onSuccess ev of
                   None \<Rightarrow> []
                 | Some cb \<Rightarrow> [OnSuccess cb [quantity_ev (item ev)]]))
              (trace (processEventQueue h st)))"
proof -
  from drain_past_reaches [OF q past]
  have q': "eventQueue st' = ev # rest" and t: "prefix (trace st) (trace st')"
    and d: "processEventQueue h st = processEventQueue h st'"
    by simp_all
  from t add_new_at_head [OF q' act w its f a1 a2] show ?thesis
    unfolding d by blast
qed

text \<open>An add of a new product queued behind a remove gets its create request.\<close>

lemma add_behind_remove_is_created:
  "trace (processEventQueue ex_hook (ex_state [ex_remove_i2, ex_add_p3])) =
       [Request (Req_deleteCustomerProductListItem ''c1'' (Some ''l1'') ''i2'') (Some ex_snapshot),
        OnSuccess (Callback ''removed'') [],
        Request (Req_createCustomerProductListItem ''c1'' ''l1''
          \<lparr>productId = ''p3'', priority = 1, quantity = Number 2, public = False,
           type_item = ''product''\<rparr>) (Some ex_snapshot),
        Request (Req_getCustomerProductLists ''c1'') (Some ex_snapshot),
        OnSuccess (Callback ''added'') [Number 2]]"
  by (simp add: processEventQueue_Cons processEventQueue_Nil drain_defs remove_from_list_def
      ex_defs ex_add_p3_def)


text \<open>
  C9. For a queued add action on a product that is already in the wishlist and that
  carries no success callback: when the update request is answered without error, the
  drain still invokes the action's error callback, if it has one, after the update
  request and the re-fetch, and goes on with the rest of the queue. (When the re-fetch
  succeeds too, what throws inside the \<open>try\<close> is the unguarded call of the missing
  callback.)
\<close>

theorem add_existing_without_onSuccess_calls_onError:
  assumes q: "eventQueue st = ev # rest"
    and act: "action ev = ADD"
    and w: "getProductListPerType h (WISHLIST h) = Inr (Some wishlist)"
    and its: "customerProductListItems wishlist = Some items"
    and f: "find (\<lambda>i. productId i = id_ev (item ev)) items
           = Some productListItem"
    and a1: "api h (server st)
           (Req_updateCustomerProductListItem (customerId h) (id_list wishlist)
              (id_item productListItem)
              \<lparr>productId = id_ev (item ev), priority = 1,
               quantity = js_add (quantity productListItem) (quantity_ev (item ev)),
               public = False, type_item = ''product''\<rparr>) = (r1, srv1)"
    and a2: "api h srv1 (Req_getCustomerProductLists (customerId h)) = (r2, srv2)"
    and ok: "\<not> isError h r1"
    and none: "onSuccess ev = None"
  shows "processEventQueue h st =
           processEventQueue h
             (optional_call (onError ev) OnError
                (snd (updateItemToWishlist h (id_ev (item ev)) productListItem
                        (quantity_ev (item ev)) (id_list wishlist) (st\<lparr>eventQueue := rest\<rparr>))))
       \<and> (onError ev = Some cb \<longrightarrow>
            prefix
              (trace st @
                [Request (Req_updateCustomerProductListItem (customerId h) (id_list wishlist)
                   (id_item productListItem)
                   \<lparr>productId = id_ev (item ev), priority = 1,
                    quantity = js_add (quantity productListItem) (quantity_ev (item ev)),
                    public = False, type_item = ''product''\<rparr>) r1,
                 Request (Req_getCustomerProductLists (customerId h)) r2,
                 OnError cb])
              (trace (processEventQueue h st)))"
proof -
  let ?st0 = "st\<lparr>eventQueue := rest\<rparr>"
  let ?upd = "Request (Req_updateCustomerProductListItem (customerId h) (id_list wishlist)
                (id_item productListItem)
                \<lparr>productId = id_ev (item ev), priority = 1,
                 quantity = js_add (quantity productListItem) (quantity_ev (item ev)),
                 public = False, type_item = ''product''\<rparr>) r1"
  let ?get = "Request (Req_getCustomerProductLists (customerId h)) r2"
  from a1 have a1': "api h (server ?st0)
           (Req_updateCustomerProductListItem (customerId h) (id_list wishlist)
              (id_item productListItem)
              \<lparr>productId = id_ev (item ev), priority = 1,
               quantity = js_add (quantity productListItem) (quantity_ev (item ev)),
               public = False, type_item = ''product''\<rparr>) = (r1, srv1)"
    by simp
  obtain res st1 where u: "updateItemToWishlist h (id_ev (item ev)) productListItem
      (quantity_ev (item ev)) (id_list wishlist) ?st0 = (res, st1)"
    by (cases "updateItemToWishlist h (id_ev (item ev)) productListItem
      (quantity_ev (item ev)) (id_list wishlist) ?st0")
  from u ok have t: "trace st1 = trace st @ [?upd, ?get]"
    by (auto simp: updateItemToWishlist_def updateCustomerProductListItem_result [OF a1' a2]
        split: if_splits)
  have step: "processEvent h ev ?st0 = (Break, optional_call (onError ev) OnError st1)"
    using act w its f u none by (cases res) (simp_all add: processEvent_def try_ADD_def)
  have first: "processEventQueue h st
      = processEventQueue h (optional_call (onError ev) OnError st1)"
    by (simp add: processEventQueue_Cons [OF q] step)
  have second: "prefix (trace st @ [?upd, ?get, OnError cb]) (trace (processEventQueue h st))"
    if "onError ev = Some cb"
    using that t drain_extends_step [OF q, of h]
    by (simp add: step optional_call_def invoke_def)
  from first second u show ?thesis
    by simp
qed

theorem add_existing_without_onSuccess_calls_onError_witness:
  "prefix
     [Request (Req_updateCustomerProductListItem ''c1'' ''l1'' ''i1''
        \<lparr>productId = ''p1'', priority = 1, quantity = Number 5, public = False,
         type_item = ''product''\<rparr>) (Some ex_snapshot),
      Request (Req_getCustomerProductLists ''c1'') (Some ex_snapshot),
      OnError (Callback ''add failed'')]
     (trace (processEventQueue ex_hook (ex_state [ex_add_p1_silent, ex_remove])))"
proof -
  have q: "eventQueue (ex_state [ex_add_p1_silent, ex_remove]) = ex_add_p1_silent # [ex_remove]"
    by (simp add: ex_state_def)
  have act: "action ex_add_p1_silent = ADD"
    by (simp add: ex_add_p1_silent_def ex_add_p1_def ADD_def)
  have f: "find (\<lambda>i. productId i = id_ev (item ex_add_p1_silent)) [ex_item, ex_other_item]
      = Some ex_item"
    using ex_find_p1 by (simp add: ex_add_p1_silent_def ex_add_p1_def)
  have none: "onSuccess ex_add_p1_silent = None"
    by (simp add: ex_add_p1_silent_def)
  have cb: "onError ex_add_p1_silent = Some (Callback ''add failed'')"
    by (simp add: ex_add_p1_silent_def ex_add_p1_def)
  from add_existing_without_onSuccess_calls_onError
    [OF q act ex_wishlist_found(1) ex_items f ex_api_ok_any ex_api_ok_any
      ex_snapshot_no_error none, of "Callback ''add failed''", THEN conjunct2] cb
  show ?thesis
    by (simp add: ex_hook_simps ex_ids ex_add_p1_silent_def ex_add_p1_def ex_state_def round_to_double_exact)
qed

section \<open>Draining: failures and order\<close>

text \<open>
  C3. When the request of the queued action at the head of the queue throws (the update
  or the create of an add, the delete of a remove), the drain invokes the action's error
  callback, if it has one, and then behaves as a drain of the remaining queue: the
  failure does not end it.
\<close>

theorem failed_action_calls_onError_and_drain_goes_on:
  assumes q: "eventQueue st = ev # rest"
    and fails:
      "(action ev = ADD
          \<and> getProductListPerType h (WISHLIST h) = Inr (Some wishlist)
          \<and> customerProductListItems wishlist = Some items
          \<and> find (\<lambda>i. productId i = id_ev (item ev)) items
               = Some productListItem
          \<and> updateItemToWishlist h (id_ev (item ev)) productListItem (quantity_ev (item ev))
               (id_list wishlist) (st\<lparr>eventQueue := rest\<rparr>) = (Inl e, st'))
       \<or> (action ev = ADD
          \<and> getProductListPerType h (WISHLIST h) = Inr (Some wishlist)
          \<and> customerProductListItems wishlist = Some items
          \<and> find (\<lambda>i. productId i = id_ev (item ev)) items = None
          \<and> addItemToWishlist h (id_ev (item ev)) (quantity_ev (item ev)) (id_list wishlist)
               (st\<lparr>eventQueue := rest\<rparr>) = (Inl e, st'))
       \<or> (action ev = REMOVE
          \<and> deleteCustomerProductListItem h (item ev) (listId ev) (st\<lparr>eventQueue := rest\<rparr>)
               = (Inl e, st'))"
  shows "processEventQueue h st = processEventQueue h (optional_call (onError ev) OnError st')
       \<and> eventQueue (optional_call (onError ev) OnError st') = rest
       \<and> trace (optional_call (onError ev) OnError st') =
           trace st' @ (case onError ev of None \<Rightarrow> [] | Some cb \<Rightarrow> [OnError cb])"
proof -
  have step: "processEvent h ev (st\<lparr>eventQueue := rest\<rparr>)
      = (Break, optional_call (onError ev) OnError st')"
    using fails
  proof (elim disjE conjE)
    assume "action ev = ADD" "getProductListPerType h (WISHLIST h) = Inr (Some wishlist)"
      "customerProductListItems wishlist = Some items"
      "find (\<lambda>i. productId i = id_ev (item ev)) items
         = Some productListItem"
      "updateItemToWishlist h (id_ev (item ev)) productListItem (quantity_ev (item ev))
         (id_list wishlist) (st\<lparr>eventQueue := rest\<rparr>) = (Inl e, st')"
    then show ?thesis
      by (simp add: processEvent_def try_ADD_def)
  next
    assume "action ev = ADD" "getProductListPerType h (WISHLIST h) = Inr (Some wishlist)"
      "customerProductListItems wishlist = Some items"
      "find (\<lambda>i. productId i = id_ev (item ev)) items = None"
      "addItemToWishlist h (id_ev (item ev)) (quantity_ev (item ev)) (id_list wishlist)
         (st\<lparr>eventQueue := rest\<rparr>) = (Inl e, st')"
    then show ?thesis
      by (simp add: processEvent_def try_ADD_def)
  next
    assume "action ev = REMOVE"
      "deleteCustomerProductListItem h (item ev) (listId ev) (st\<lparr>eventQueue := rest\<rparr>)
         = (Inl e, st')"
    then show ?thesis
      by (simp add: processEvent_remove)
  qed
  from processEvent_frame [of "st\<lparr>eventQueue := rest\<rparr>" h ev] step
  have "eventQueue (optional_call (onError ev) OnError st') = rest"
    by simp
  moreover have "trace (optional_call (onError ev) OnError st') =
      trace st' @ (case onError ev of None \<Rightarrow> [] | Some cb \<Rightarrow> [OnError cb])"
    by (simp add: optional_call_def invoke_def split: option.splits)
  ultimately show ?thesis
    by (simp add: processEventQueue_Cons [OF q] step)
qed

theorem failed_action_calls_onError_and_drain_goes_on_witness:
  "trace (processEventQueue ex_failing_hook (ex_state [ex_add_p1, ex_remove])) =
     [Request (Req_updateCustomerProductListItem ''c1'' ''l1'' ''i1''
        \<lparr>productId = ''p1'', priority = 1, quantity = Number 5, public = False,
         type_item = ''product''\<rparr>) (Some ex_fault),
      OnError (Callback ''add failed''),
      Request (Req_deleteCustomerProductListItem ''c1'' (Some ''l1'') ''i1'') (Some ex_fault),
      OnError (Callback ''remove failed'')]
   \<and> trace (processEventQueue ex_failing_hook (ex_state [ex_add_p3])) =
     [Request (Req_createCustomerProductListItem ''c1'' ''l1''
        \<lparr>productId = ''p3'', priority = 1, quantity = Number 2, public = False,
         type_item = ''product''\<rparr>) (Some ex_fault),
      OnError (Callback ''add failed'')]"
proof -
  let ?crt = "Request (Req_createCustomerProductListItem ''c1'' ''l1''
        \<lparr>productId = ''p3'', priority = 1, quantity = Number 2, public = False,
         type_item = ''product''\<rparr>) (Some ex_fault)"
  let ?t0 = "ex_state [ex_add_p3]"
  let ?t1 = "\<lparr>eventQueue = [], store = Some ex_snapshot, isLoading = False,
     server = (), trace = [?crt]\<rparr> :: (unit, unit, bool) state"
  let ?t2 = "\<lparr>eventQueue = [], store = Some ex_snapshot, isLoading = False,
     server = (), trace = [?crt, OnError (Callback ''add failed'')]\<rparr>
     :: (unit, unit, bool) state"
  have act3: "action ex_add_p3 = ADD"
    by (simp add: ex_add_p3_def ADD_def)
  have f3: "find (\<lambda>i. productId i = id_ev (item ex_add_p3)) [ex_item, ex_other_item] = None"
    using ex_find_p3 by (simp add: ex_add_p3_def)
  have c3: "addItemToWishlist ex_failing_hook (id_ev (item ex_add_p3))
      (quantity_ev (item ex_add_p3)) (id_list ex_wishlist) (?t0\<lparr>eventQueue := []\<rparr>)
      = (Inl (Error (Some ex_fault)), ?t1)"
    using ex_fault_is_error
    by (simp add: addItemToWishlist_def createCustomerProductListItem_def call_api_def
        setIsLoading_def ex_api_fail_def ex_failing_hook_simps ex_ids ex_add_p3_def ex_state_def)
  have o3: "optional_call (onError ex_add_p3) OnError ?t1 = ?t2"
    by (simp add: optional_call_def invoke_def ex_add_p3_def)
  have q3: "eventQueue ?t0 = ex_add_p3 # []"
    by (simp add: ex_state_def)
  have "processEventQueue ex_failing_hook ?t0
      = processEventQueue ex_failing_hook (optional_call (onError ex_add_p3) OnError ?t1)"
    by (rule failed_action_calls_onError_and_drain_goes_on
          [OF q3, where wishlist = ex_wishlist and items = "[ex_item, ex_other_item]"
             and e = "Error (Some ex_fault)", THEN conjunct1])
       (simp only: act3 f3 c3 ex_wishlist_found ex_items simp_thms)
  also have "\<dots> = ?t2"
    by (simp add: o3 processEventQueue_Nil)
  finally have created: "trace (processEventQueue ex_failing_hook ?t0)
      = [?crt, OnError (Callback ''add failed'')]"
    by simp
  let ?upd = "Request (Req_updateCustomerProductListItem ''c1'' ''l1'' ''i1''
        \<lparr>productId = ''p1'', priority = 1, quantity = Number 5, public = False,
         type_item = ''product''\<rparr>) (Some ex_fault)"
  let ?del = "Request (Req_deleteCustomerProductListItem ''c1'' (Some ''l1'') ''i1'') (Some ex_fault)"
  let ?s0 = "ex_state [ex_add_p1, ex_remove]"
  let ?s1 = "\<lparr>eventQueue = [ex_remove], store = Some ex_snapshot, isLoading = False,
     server = (), trace = [?upd]\<rparr> :: (unit, unit, bool) state"
  let ?s2 = "\<lparr>eventQueue = [ex_remove], store = Some ex_snapshot, isLoading = False,
     server = (), trace = [?upd, OnError (Callback ''add failed'')]\<rparr> :: (unit, unit, bool) state"
  let ?s3 = "\<lparr>eventQueue = [], store = Some ex_snapshot, isLoading = False,
     server = (), trace = [?upd, OnError (Callback ''add failed''), ?del]\<rparr>
     :: (unit, unit, bool) state"
  let ?s4 = "\<lparr>eventQueue = [], store = Some ex_snapshot, isLoading = False,
     server = (), trace = [?upd, OnError (Callback ''add failed''), ?del,
       OnError (Callback ''remove failed'')]\<rparr> :: (unit, unit, bool) state"
  have act: "action ex_add_p1 = ADD" "action ex_remove = REMOVE"
    by (simp_all add: ex_add_p1_def ex_remove_def ADD_def REMOVE_def)
  have f: "find (\<lambda>i. productId i = id_ev (item ex_add_p1)) [ex_item, ex_other_item]
      = Some ex_item"
    using ex_find_p1 by (simp add: ex_add_p1_def)
  have u: "updateItemToWishlist ex_failing_hook (id_ev (item ex_add_p1)) ex_item
      (quantity_ev (item ex_add_p1)) (id_list ex_wishlist) (?s0\<lparr>eventQueue := [ex_remove]\<rparr>)
      = (Inl (Error (Some ex_fault)), ?s1)"
    using ex_fault_is_error
    by (simp add: updateItemToWishlist_def updateCustomerProductListItem_def call_api_def
        setIsLoading_def ex_api_fail_def ex_failing_hook_simps ex_ids ex_add_p1_def ex_state_def
        round_to_double_exact)
  have d: "deleteCustomerProductListItem ex_failing_hook (item ex_remove) (listId ex_remove)
      (?s2\<lparr>eventQueue := []\<rparr>) = (Inl (Error (Some ex_fault)), ?s3)"
    using ex_fault_is_error
    by (simp add: deleteCustomerProductListItem_def call_api_def ex_api_fail_def
        ex_failing_hook_simps ex_remove_def)
  have o1: "optional_call (onError ex_add_p1) OnError ?s1 = ?s2"
    by (simp add: optional_call_def invoke_def ex_add_p1_def)
  have o2: "optional_call (onError ex_remove) OnError ?s3 = ?s4"
    by (simp add: optional_call_def invoke_def ex_remove_def)
  have q: "eventQueue ?s0 = ex_add_p1 # [ex_remove]"
    by (simp add: ex_state_def)
  have "processEventQueue ex_failing_hook ?s0
      = processEventQueue ex_failing_hook (optional_call (onError ex_add_p1) OnError ?s1)"
    by (rule failed_action_calls_onError_and_drain_goes_on
          [OF q, where wishlist = ex_wishlist and items = "[ex_item, ex_other_item]"
             and productListItem = ex_item and e = "Error (Some ex_fault)", THEN conjunct1])
       (simp only: act f u ex_wishlist_found ex_items simp_thms)
  also have "\<dots> = processEventQueue ex_failing_hook ?s2"
    by (simp only: o1)
  also have "\<dots> = processEventQueue ex_failing_hook (optional_call (onError ex_remove) OnError ?s3)"
    by (rule failed_action_calls_onError_and_drain_goes_on
          [where rest = "[]" and e = "Error (Some ex_fault)", THEN conjunct1])
       (simp, simp only: act d ADD_neq_REMOVE [symmetric] simp_thms)
  also have "\<dots> = ?s4"
    by (simp add: o2 processEventQueue_Nil)
  finally have "trace (processEventQueue ex_failing_hook ?s0)
      = [?upd, OnError (Callback ''add failed''), ?del, OnError (Callback ''remove failed'')]"
    by simp
  with created show ?thesis
    by simp
qed

text \<open>
  C2. One drain does not process every queued action. An add of the new product
  \<open>p3\<close> and a remove are queued while the context value is undefined; the lists
  arrive and the effect starts the drain; every request is answered without error. The
  drain creates the item, re-fetches, invokes the success callback and returns: the
  remove is still in the queue and no delete request was issued.
\<close>

theorem drain_stops_at_successful_add:
  "fst (useEffect ex_hook ex_queued_then_loaded) = Inr True
   \<and> eventQueue (snd (useEffect ex_hook ex_queued_then_loaded)) = [ex_remove]
   \<and> trace (snd (useEffect ex_hook ex_queued_then_loaded)) =
       [Request (Req_createCustomerProductListItem ''c1'' ''l1''
          \<lparr>productId = ''p3'', priority = 1, quantity = Number 2, public = False,
           type_item = ''product''\<rparr>) (Some ex_snapshot),
        Request (Req_getCustomerProductLists ''c1'') (Some ex_snapshot),
        OnSuccess (Callback ''added'') [Number 2]]"
  by (simp add: useEffect_def ex_queued_then_loaded_def ex_unloaded_def addActionToEventQueue_def
      processEventQueue_Cons processEventQueue_Nil drain_defs ex_defs ex_add_p3_def)

section \<open>Removing an item\<close>

text \<open>
  C4. When the delete request is answered by a response that is not error-shaped,
  \<open>deleteCustomerProductListItem\<close> has issued the delete request and nothing else (so
  no re-fetch of the lists). It returns normally and has written a context value with the
  same lists in which the item collection of every list whose id is the given list id
  is the old collection without the items whose id is that of the removed item. That is
  so when every list with the given id has an item collection; line 364 reads it
  without a guard, and with a list of that id that has none the method throws instead
  and writes nothing. The context value it edits is the one of the render
  (\<open>customerProductLists\<close>).
\<close>

theorem delete_filters_item_without_refetch:
  assumes "api h (server st) (Req_deleteCustomerProductListItem (customerId h) lid (id_ev it))
             = (response, srv)"
    and "\<not> isError h response"
    and "customerProductLists h = Some cpl"
    and "data cpl = Some ds"
  shows "trace (snd (deleteCustomerProductListItem h it lid st)) = trace st @
            [Request (Req_deleteCustomerProductListItem (customerId h) lid (id_ev it)) response]
       \<and> ((\<forall>l \<in> set ds. Some (id_list l) = lid \<longrightarrow> customerProductListItems l \<noteq> None) \<longrightarrow>
            fst (deleteCustomerProductListItem h it lid st) = Inr ()
          \<and> (\<exists>cpl'. store (snd (deleteCustomerProductListItem h it lid st)) = Some cpl'
                 \<and> data cpl' \<noteq> None)
          \<and> map id_list (lists_of (store (snd (deleteCustomerProductListItem h it lid st))))
               = map id_list ds
          \<and> (\<forall>i < length ds. Some (id_list (ds ! i)) = lid \<longrightarrow>
                customerProductListItems
                  (lists_of (store (snd (deleteCustomerProductListItem h it lid st))) ! i) =
                map_option (filter (\<lambda>x. id_item x \<noteq> id_ev it))
                  (customerProductListItems (ds ! i))))
       \<and> (\<not> (\<forall>l \<in> set ds. Some (id_list l) = lid \<longrightarrow> customerProductListItems l \<noteq> None) \<longrightarrow>
            fst (deleteCustomerProductListItem h it lid st) = Inl TypeError
          \<and> store (snd (deleteCustomerProductListItem h it lid st)) = store st)"
proof (cases "\<forall>l \<in> set ds. Some (id_list l) = lid \<longrightarrow> customerProductListItems l \<noteq> None")
  case True
  show ?thesis
    using assms(2-4) True
    by (simp add: deleteCustomerProductListItem_result [OF assms(1)]
        map_throwing_remove_from_list [OF True] lists_of_def comp_def Let_def)
next
  case False
  show ?thesis
    using assms(2-4) False
    by (simp add: deleteCustomerProductListItem_result [OF assms(1)]
        map_throwing_remove_from_list_throws [OF False] Let_def)
qed

theorem delete_filters_item_without_refetch_witness:
  "fst (deleteCustomerProductListItem ex_hook (item ex_remove) (Some ''l1'') (ex_state [])) = Inr ()
   \<and> trace (snd (deleteCustomerProductListItem ex_hook (item ex_remove) (Some ''l1'') (ex_state [])))
      = [Request (Req_deleteCustomerProductListItem ''c1'' (Some ''l1'') ''i1'') (Some ex_snapshot)]
   \<and> customerProductListItems
        (lists_of (store (snd (deleteCustomerProductListItem ex_hook (item ex_remove) (Some ''l1'')
           (ex_state [])))) ! 0)
      = Some [ex_other_item]"
proof -
  have a: "api ex_hook (server (ex_state []))
      (Req_deleteCustomerProductListItem (customerId ex_hook) (Some ''l1'') (id_ev (item ex_remove)))
      = (Some ex_snapshot, ())"
    by (simp add: ex_hook_def ex_api_ok_def)
  have e: "\<not> isError ex_hook (Some ex_snapshot)"
    by (simp add: ex_hook_def ex_isError_def ex_snapshot_def)
  have c: "customerProductLists ex_hook = Some ex_snapshot"
    by (simp add: ex_hook_def)
  have d: "data ex_snapshot = Some [ex_wishlist, ex_other_list]"
    by (simp add: ex_snapshot_def)
  have i: "\<forall>l \<in> set [ex_wishlist, ex_other_list].
      Some (id_list l) = Some ''l1'' \<longrightarrow> customerProductListItems l \<noteq> None"
    by (simp add: ex_wishlist_def ex_other_list_def)
  note t = delete_filters_item_without_refetch [OF a e c d]
  from t i have "customerProductListItems
        (lists_of (store (snd (deleteCustomerProductListItem ex_hook (item ex_remove) (Some ''l1'')
           (ex_state [])))) ! 0)
      = map_option (filter (\<lambda>x. id_item x \<noteq> id_ev (item ex_remove)))
          (customerProductListItems ex_wishlist)"
    by (simp add: ex_wishlist_def)
  with t i show ?thesis
    by (simp add: ex_defs)
qed

text \<open>
  C10. The same successful call leaves every list whose id differs from the given list
  id exactly as it was, and keeps every field of the context value other than
  \<open>data\<close>. (When it throws for want of an item collection it writes nothing at all.)
\<close>

theorem delete_frame:
  assumes "api h (server st) (Req_deleteCustomerProductListItem (customerId h) lid (id_ev it))
             = (response, srv)"
    and "\<not> isError h response"
    and "customerProductLists h = Some cpl"
    and "data cpl = Some ds"
  shows "((\<forall>l \<in> set ds. Some (id_list l) = lid \<longrightarrow> customerProductListItems l \<noteq> None) \<longrightarrow>
            length (lists_of (store (snd (deleteCustomerProductListItem h it lid st))))
              = length ds
          \<and> (\<forall>i < length ds. Some (id_list (ds ! i)) \<noteq> lid \<longrightarrow>
                lists_of (store (snd (deleteCustomerProductListItem h it lid st))) ! i = ds ! i)
          \<and> fields_of (store (snd (deleteCustomerProductListItem h it lid st)))
               = Some (snapshot.more cpl))
       \<and> (\<not> (\<forall>l \<in> set ds. Some (id_list l) = lid \<longrightarrow> customerProductListItems l \<noteq> None) \<longrightarrow>
            store (snd (deleteCustomerProductListItem h it lid st)) = store st)"
proof (cases "\<forall>l \<in> set ds. Some (id_list l) = lid \<longrightarrow> customerProductListItems l \<noteq> None")
  case True
  show ?thesis
    using assms(2-4) True
    by (simp add: deleteCustomerProductListItem_result [OF assms(1)]
        map_throwing_remove_from_list [OF True] lists_of_def fields_of_def Let_def)
next
  case False
  have "store (snd (deleteCustomerProductListItem h it lid st)) = store st"
    using assms(2-4)
    by (simp add: deleteCustomerProductListItem_result [OF assms(1)]
        map_throwing_remove_from_list_throws [OF False] Let_def)
  with False show ?thesis
    by blast
qed

theorem delete_frame_witness:
  "lists_of (store (snd (deleteCustomerProductListItem ex_hook (item ex_remove) (Some ''l1'')
      (ex_state [])))) ! 1 = ex_other_list
   \<and> fields_of (store (snd (deleteCustomerProductListItem ex_hook (item ex_remove) (Some ''l1'')
      (ex_state [])))) = Some False"
proof -
  have a: "api ex_hook (server (ex_state []))
      (Req_deleteCustomerProductListItem (customerId ex_hook) (Some ''l1'') (id_ev (item ex_remove)))
      = (Some ex_snapshot, ())"
    by (simp add: ex_hook_def ex_api_ok_def)
  have e: "\<not> isError ex_hook (Some ex_snapshot)"
    by (simp add: ex_hook_def ex_isError_def ex_snapshot_def)
  have c: "customerProductLists ex_hook = Some ex_snapshot"
    by (simp add: ex_hook_def)
  have d: "data ex_snapshot = Some [ex_wishlist, ex_other_list]"
    by (simp add: ex_snapshot_def)
  have i: "\<forall>l \<in> set [ex_wishlist, ex_other_list].
      Some (id_list l) = Some ''l1'' \<longrightarrow> customerProductListItems l \<noteq> None"
    by (simp add: ex_wishlist_def ex_other_list_def)
  note t = delete_frame [OF a e c d]
  from t i have "lists_of (store (snd (deleteCustomerProductListItem ex_hook (item ex_remove)
      (Some ''l1'') (ex_state [])))) ! 1 = [ex_wishlist, ex_other_list] ! 1"
    by (simp add: ex_other_list_def)
  with t i show ?thesis
    by (simp add: ex_snapshot_def)
qed

section \<open>Errors of the store methods\<close>

text \<open>
  C5. For each of \<open>createCustomerProductList\<close>, \<open>createCustomerProductListItem\<close>,
  \<open>updateCustomerProductListItem\<close>, \<open>getCustomerProductLists\<close>,
  \<open>fetchOrCreateProductLists\<close> and \<open>deleteCustomerProductListItem\<close>: if any request
  the call issues is answered by an error-shaped response, the call raises an error
  carrying that response, and that request is the last thing the call did (nothing is
  re-issued after it).
\<close>

theorem error_response_raises_without_retry:
  assumes "isError h r"
  shows "(Request req r \<in> set (new_obs st (snd (createCustomerProductList h requestBody st))) \<longrightarrow>
            fst (createCustomerProductList h requestBody st) = Inl (Error r)
          \<and> last (trace (snd (createCustomerProductList h requestBody st))) = Request req r)
       \<and> (Request req r \<in> set (new_obs st (snd (createCustomerProductListItem h body lid st))) \<longrightarrow>
            fst (createCustomerProductListItem h body lid st) = Inl (Error r)
          \<and> last (trace (snd (createCustomerProductListItem h body lid st))) = Request req r)
       \<and> (Request req r \<in> set (new_obs st (snd (updateCustomerProductListItem h body lid iid st))) \<longrightarrow>
            fst (updateCustomerProductListItem h body lid iid st) = Inl (Error r)
          \<and> last (trace (snd (updateCustomerProductListItem h body lid iid st))) = Request req r)
       \<and> (Request req r \<in> set (new_obs st (snd (getCustomerProductLists h st))) \<longrightarrow>
            fst (getCustomerProductLists h st) = Inl (Error r)
          \<and> last (trace (snd (getCustomerProductLists h st))) = Request req r)
       \<and> (Request req r \<in> set (new_obs st (snd (fetchOrCreateProductLists h type st))) \<longrightarrow>
            fst (fetchOrCreateProductLists h type st) = Inl (Error r)
          \<and> last (trace (snd (fetchOrCreateProductLists h type st))) = Request req r)
       \<and> (Request req r \<in> set (new_obs st (snd (deleteCustomerProductListItem h it olid st))) \<longrightarrow>
            fst (deleteCustomerProductListItem h it olid st) = Inl (Error r)
          \<and> last (trace (snd (deleteCustomerProductListItem h it olid st))) = Request req r)"
  by (simp add: createCustomerProductList_raises [OF assms]
      createCustomerProductListItem_raises [OF assms]
      updateCustomerProductListItem_raises [OF assms]
      getCustomerProductLists_raises [OF assms]
      fetchOrCreateProductLists_raises [OF assms]
      deleteCustomerProductListItem_raises [OF assms])

theorem error_response_raises_without_retry_witness:
  "fst (createCustomerProductList ex_failing_hook ''wish_list'' (ex_state [])) = Inl (Error (Some ex_fault))
   \<and> fst (createCustomerProductListItem ex_failing_hook ex_body ''l1'' (ex_state []))
       = Inl (Error (Some ex_fault))
   \<and> fst (updateCustomerProductListItem ex_failing_hook ex_body ''l1'' ''i1'' (ex_state []))
       = Inl (Error (Some ex_fault))
   \<and> fst (getCustomerProductLists ex_failing_hook (ex_state [])) = Inl (Error (Some ex_fault))
   \<and> fst (fetchOrCreateProductLists ex_failing_hook ''wish_list'' (ex_state []))
       = Inl (Error (Some ex_fault))
   \<and> fst (deleteCustomerProductListItem ex_failing_hook (item ex_remove) (Some ''l1'') (ex_state []))
       = Inl (Error (Some ex_fault))
   \<and> trace (snd (updateCustomerProductListItem ex_failing_hook ex_body ''l1'' ''i1'' (ex_state [])))
       = [Request (Req_updateCustomerProductListItem ''c1'' ''l1'' ''i1'' ex_body) (Some ex_fault)]"
proof -
  have e: "isError ex_failing_hook (Some ex_fault)"
    by (simp add: ex_failing_hook_simps ex_isError_def ex_fault_def)
  have t: "trace (snd (updateCustomerProductListItem ex_failing_hook ex_body ''l1'' ''i1''
      (ex_state [])))
       = [Request (Req_updateCustomerProductListItem ''c1'' ''l1'' ''i1'' ex_body) (Some ex_fault)]"
    by (simp add: updateCustomerProductListItem_def call_api_def setIsLoading_def
        ex_failing_hook_simps ex_api_fail_def ex_isError_def ex_fault_def ex_state_def)
  have m1: "Request (Req_createCustomerProductList ''c1'' ''wish_list'') (Some ex_fault)
     \<in> set (new_obs (ex_state [])
          (snd (createCustomerProductList ex_failing_hook ''wish_list'' (ex_state []))))"
    by (simp add: createCustomerProductList_def call_api_def setIsLoading_def new_obs_def
        ex_failing_hook_simps ex_api_fail_def ex_isError_def ex_fault_def ex_state_def)
  have m2: "Request (Req_createCustomerProductListItem ''c1'' ''l1'' ex_body) (Some ex_fault)
     \<in> set (new_obs (ex_state [])
          (snd (createCustomerProductListItem ex_failing_hook ex_body ''l1'' (ex_state []))))"
    by (simp add: createCustomerProductListItem_def call_api_def setIsLoading_def new_obs_def
        ex_failing_hook_simps ex_api_fail_def ex_isError_def ex_fault_def ex_state_def)
  have m3: "Request (Req_updateCustomerProductListItem ''c1'' ''l1'' ''i1'' ex_body) (Some ex_fault)
     \<in> set (new_obs (ex_state [])
          (snd (updateCustomerProductListItem ex_failing_hook ex_body ''l1'' ''i1'' (ex_state []))))"
    by (simp add: updateCustomerProductListItem_def call_api_def setIsLoading_def new_obs_def
        ex_failing_hook_simps ex_api_fail_def ex_isError_def ex_fault_def ex_state_def)
  have m4: "Request (Req_getCustomerProductLists ''c1'') (Some ex_fault)
     \<in> set (new_obs (ex_state []) (snd (getCustomerProductLists ex_failing_hook (ex_state []))))"
    by (simp add: getCustomerProductLists_def call_api_def setIsLoading_def new_obs_def
        ex_failing_hook_simps ex_api_fail_def ex_isError_def ex_fault_def ex_state_def)
  have m5: "Request (Req_getCustomerProductLists ''c1'') (Some ex_fault)
     \<in> set (new_obs (ex_state [])
          (snd (fetchOrCreateProductLists ex_failing_hook ''wish_list'' (ex_state []))))"
    by (simp add: fetchOrCreateProductLists_def call_api_def setIsLoading_def new_obs_def
        ex_failing_hook_simps ex_api_fail_def ex_isError_def ex_fault_def ex_state_def)
  have m6: "Request (Req_deleteCustomerProductListItem ''c1'' (Some ''l1'') ''i1'') (Some ex_fault)
     \<in> set (new_obs (ex_state [])
          (snd (deleteCustomerProductListItem ex_failing_hook (item ex_remove) (Some ''l1'')
             (ex_state []))))"
    by (simp add: deleteCustomerProductListItem_def call_api_def new_obs_def ex_remove_def
        ex_failing_hook_simps ex_api_fail_def ex_isError_def ex_fault_def ex_state_def)
  note c = error_response_raises_without_retry [OF e, of _ "ex_state []"]
  from m1 c [of "Req_createCustomerProductList ''c1'' ''wish_list''" "''wish_list''"]
  have g1: "fst (createCustomerProductList ex_failing_hook ''wish_list'' (ex_state []))
      = Inl (Error (Some ex_fault))"
    by blast
  from m2 c [of "Req_createCustomerProductListItem ''c1'' ''l1'' ex_body" _ ex_body "''l1''"]
  have g2: "fst (createCustomerProductListItem ex_failing_hook ex_body ''l1'' (ex_state []))
      = Inl (Error (Some ex_fault))"
    by blast
  from m3 c [of "Req_updateCustomerProductListItem ''c1'' ''l1'' ''i1'' ex_body" _ ex_body "''l1''" "''i1''"]
  have g3: "fst (updateCustomerProductListItem ex_failing_hook ex_body ''l1'' ''i1'' (ex_state []))
      = Inl (Error (Some ex_fault))"
    by blast
  from m4 c [of "Req_getCustomerProductLists ''c1''"]
  have g4: "fst (getCustomerProductLists ex_failing_hook (ex_state [])) = Inl (Error (Some ex_fault))"
    by blast
  from m5 c [of "Req_getCustomerProductLists ''c1''" _ _ _ _ "''wish_list''"]
  have g5: "fst (fetchOrCreateProductLists ex_failing_hook ''wish_list'' (ex_state []))
      = Inl (Error (Some ex_fault))"
    by blast
  from m6 c [of "Req_deleteCustomerProductListItem ''c1'' (Some ''l1'') ''i1''" _ _ _ _ _
      "item ex_remove" "Some ''l1''"]
  have g6: "fst (deleteCustomerProductListItem ex_failing_hook (item ex_remove) (Some ''l1'')
      (ex_state [])) = Inl (Error (Some ex_fault))"
    by blast
  from g1 g2 g3 g4 g5 g6 t show ?thesis
    by simp
qed

section \<open>Fetch or create\<close>

text \<open>
  C6. \<open>fetchOrCreateProductLists\<close> first fetches the lists. When the response is not
  error-shaped: if one of the fetched lists has the requested type, the response becomes
  the context value and nothing else is requested; otherwise a create request for a list
  of that type follows, and when it is answered without error the lists are fetched
  again, the second response becoming the context value when it is not error-shaped.
\<close>

theorem fetchOrCreateProductLists_fetch_then_create:
  assumes "api h (server st) (Req_getCustomerProductLists (customerId h)) = (r1, srv1)"
    and "api h srv1 (Req_createCustomerProductList (customerId h) type) = (r2, srv2)"
    and "api h srv2 (Req_getCustomerProductLists (customerId h)) = (r3, srv3)"
    and "\<not> isError h r1"
  shows "((\<exists>list \<in> set (lists_of r1). type_list list = type) \<longrightarrow>
            fst (fetchOrCreateProductLists h type st) = Inr ()
          \<and> store (snd (fetchOrCreateProductLists h type st)) = r1
          \<and> trace (snd (fetchOrCreateProductLists h type st)) =
              trace st @ [Request (Req_getCustomerProductLists (customerId h)) r1])
       \<and> (\<not> (\<exists>list \<in> set (lists_of r1). type_list list = type) \<longrightarrow>
            prefix
              (trace st @
                [Request (Req_getCustomerProductLists (customerId h)) r1,
                 Request (Req_createCustomerProductList (customerId h) type) r2])
              (trace (snd (fetchOrCreateProductLists h type st)))
          \<and> (\<not> isError h r2 \<longrightarrow>
                trace (snd (fetchOrCreateProductLists h type st)) =
                  trace st @
                    [Request (Req_getCustomerProductLists (customerId h)) r1,
                     Request (Req_createCustomerProductList (customerId h) type) r2,
                     Request (Req_getCustomerProductLists (customerId h)) r3]
              \<and> (\<not> isError h r3 \<longrightarrow>
                    fst (fetchOrCreateProductLists h type st) = Inr ()
                  \<and> store (snd (fetchOrCreateProductLists h type st)) = r3)))"
  using assms(4)
  by (simp add: fetchOrCreateProductLists_result [OF assms(1-3)])

theorem fetchOrCreateProductLists_fetch_then_create_witness:
  "fst (fetchOrCreateProductLists ex_hook ''wish_list'' (ex_state [])) = Inr ()
   \<and> store (snd (fetchOrCreateProductLists ex_hook ''wish_list'' (ex_state []))) = Some ex_snapshot
   \<and> trace (snd (fetchOrCreateProductLists ex_hook ''wish_list'' (ex_state [])))
       = [Request (Req_getCustomerProductLists ''c1'') (Some ex_snapshot)]
   \<and> fst (fetchOrCreateProductLists ex_hook ''shopping_list'' (ex_state [])) = Inr ()
   \<and> trace (snd (fetchOrCreateProductLists ex_hook ''shopping_list'' (ex_state [])))
       = [Request (Req_getCustomerProductLists ''c1'') (Some ex_snapshot),
          Request (Req_createCustomerProductList ''c1'' ''shopping_list'') (Some ex_snapshot),
          Request (Req_getCustomerProductLists ''c1'') (Some ex_snapshot)]"
proof -
  have a: "api ex_hook (server (ex_state [])) (Req_getCustomerProductLists (customerId ex_hook))
      = (Some ex_snapshot, ())"
    by (simp add: ex_hook_simps ex_api_ok_def)
  have b: "api ex_hook () (Req_createCustomerProductList (customerId ex_hook) type)
      = (Some ex_snapshot, ())" for type
    by (simp add: ex_hook_simps ex_api_ok_def)
  have c: "api ex_hook () (Req_getCustomerProductLists (customerId ex_hook)) = (Some ex_snapshot, ())"
    by (simp add: ex_hook_simps ex_api_ok_def)
  have e: "\<not> isError ex_hook (Some ex_snapshot)"
    by (simp add: ex_hook_simps ex_snapshot_ok)
  have y: "\<exists>list \<in> set (lists_of (Some ex_snapshot)). type_list list = ''wish_list''"
    by (simp add: lists_of_ex_snapshot ex_wishlist_def)
  have n: "\<not> (\<exists>list \<in> set (lists_of (Some ex_snapshot)). type_list list = ''shopping_list'')"
    by (simp add: lists_of_ex_snapshot ex_wishlist_def ex_other_list_def)
  from y e fetchOrCreateProductLists_fetch_then_create [OF a b c e, of "''wish_list''"]
  have g1: "fst (fetchOrCreateProductLists ex_hook ''wish_list'' (ex_state [])) = Inr ()
     \<and> store (snd (fetchOrCreateProductLists ex_hook ''wish_list'' (ex_state []))) = Some ex_snapshot
     \<and> trace (snd (fetchOrCreateProductLists ex_hook ''wish_list'' (ex_state [])))
       = [Request (Req_getCustomerProductLists ''c1'') (Some ex_snapshot)]"
    by (simp add: ex_hook_simps ex_state_def)
  from n e fetchOrCreateProductLists_fetch_then_create [OF a b c e, of "''shopping_list''"]
  have g2: "fst (fetchOrCreateProductLists ex_hook ''shopping_list'' (ex_state [])) = Inr ()
     \<and> trace (snd (fetchOrCreateProductLists ex_hook ''shopping_list'' (ex_state [])))
       = [Request (Req_getCustomerProductLists ''c1'') (Some ex_snapshot),
          Request (Req_createCustomerProductList ''c1'' ''shopping_list'') (Some ex_snapshot),
          Request (Req_getCustomerProductLists ''c1'') (Some ex_snapshot)]"
    by (simp add: ex_hook_simps ex_state_def)
  from g1 g2 show ?thesis
    by simp
qed

section \<open>The drain trigger\<close>

text \<open>
  C7. The effect calls \<open>processEventQueue\<close> exactly when the queue is not empty and the
  context value is defined with a \<open>data\<close> of at least one list; in every other case
  the state, the queue included, is left as it was.
\<close>

theorem drain_trigger:
  "(fst (useEffect h st) = Inr True \<longleftrightarrow>
      eventQueue st \<noteq> [] \<and>
      (\<exists>cpl ds. customerProductLists h = Some cpl \<and> data cpl = Some ds \<and> ds \<noteq> []))
   \<and> (fst (useEffect h st) = Inr True \<longrightarrow> snd (useEffect h st) = processEventQueue h st)
   \<and> (fst (useEffect h st) \<noteq> Inr True \<longrightarrow> snd (useEffect h st) = st)"
  by (auto simp: useEffect_def split: option.splits)

theorem drain_trigger_witness:
  "fst (useEffect (ex_hook\<lparr>customerProductLists := None\<rparr>) (ex_state [ex_remove])) = Inr False
   \<and> snd (useEffect (ex_hook\<lparr>customerProductLists := None\<rparr>) (ex_state [ex_remove]))
       = ex_state [ex_remove]
   \<and> fst (useEffect ex_hook (ex_state [ex_remove])) = Inr True
   \<and> snd (useEffect ex_hook (ex_state [ex_remove])) = processEventQueue ex_hook (ex_state [ex_remove])"
proof -
  have n: "fst (useEffect (ex_hook\<lparr>customerProductLists := None\<rparr>) (ex_state [ex_remove]))
      = Inr False"
    by (simp add: useEffect_def ex_state_def)
  have y: "fst (useEffect ex_hook (ex_state [ex_remove])) = Inr True"
    by (simp add: useEffect_def ex_state_def ex_hook_def ex_snapshot_def)
  from n y
    drain_trigger [of "ex_hook\<lparr>customerProductLists := None\<rparr>" "ex_state [ex_remove]"]
    drain_trigger [of ex_hook "ex_state [ex_remove]"]
  show ?thesis
    by simp
qed

end
